theory Spec2Isabelle
  imports Complex_Main "HOL-Library.Char_ord"
begin

section \<open>The weather backend: data model\<close>

text \<open>
  This theory embeds the aggregation core of \<^verbatim>\<open>backend_v2\<close>
  (\<^verbatim>\<open>state_v2.cpp\<close> and \<^verbatim>\<open>api_v2.cpp\<close>) and checks the statements of its
  specification against it.

  Conventions of the embedding.
  \<^item> A C++ \<^verbatim>\<open>double\<close> is a \<^typ>\<open>real\<close>, so rounding is not modelled: the theorems
    below are about which expression is stored into which field and under which
    guard. Where a statement holds in exact arithmetic only, the text says so. The
    places where the code uses a NaN (the default of \<^verbatim>\<open>get_num(k, NAN)\<close>, the reading
    of an SQL NULL) are an \<^typ>\<open>'a option\<close>, \<^term>\<open>None\<close> standing for the NaN.
  \<^item> \<^verbatim>\<open>std::time_t\<close>, \<^verbatim>\<open>long\<close> and \<^verbatim>\<open>int\<close> are \<^typ>\<open>int\<close> and the sample counter, a
    \<^verbatim>\<open>uint64_t\<close>, is a \<^typ>\<open>nat\<close>: the values that occur (epoch seconds, keys such
    as 20261030, one sample every ten seconds) are far from the bounds of the machine
    types, and no statement below is about a value near them.
  \<^item> The clock (\<^verbatim>\<open>std::time(nullptr)\<close>) is the parameter \<open>now\<close>; the C library's
    \<^verbatim>\<open>localtime_r\<close> and \<^verbatim>\<open>mktime\<close> are the two fields of the parameter \<open>L\<close>.
  \<^item> The global variables \<^verbatim>\<open>g_state\<close>, \<^verbatim>\<open>g_db\<close> and the snapshot file are the
    fields of one record, passed in and returned.
\<close>

type_synonym time_t = int

record tm =
  tm_year :: int
  tm_mon :: int
  tm_mday :: int
  tm_hour :: int
  tm_min :: int
  tm_sec :: int

record libc =
  localtime_r :: "time_t \<Rightarrow> tm"
  mktime :: "tm \<Rightarrow> time_t"

text \<open>C++ integer division and remainder truncate toward zero.\<close>

definition c_div :: "int \<Rightarrow> int \<Rightarrow> int" where
  "c_div a b = (if (a < 0) = (b < 0) then \<bar>a\<bar> div \<bar>b\<bar> else - (\<bar>a\<bar> div \<bar>b\<bar>))"

definition c_mod :: "int \<Rightarrow> int \<Rightarrow> int" where
  "c_mod a b = a - b * c_div a b"

subsection \<open>JSON values (the part of nlohmann::json the code uses)\<close>

datatype jval =
    JNull
  | JBool bool
  | JInt int
  | JFloat real
  | JStr string
  | JArr "jval list"
  | JObj "(string \<times> jval) list"

text \<open>
  \<open>jlookup j k\<close> is the member \<^verbatim>\<open>j[k]\<close> when \<^verbatim>\<open>j.contains(k)\<close>, and \<^term>\<open>None\<close> when
  it does not; \<^verbatim>\<open>contains\<close> is false on anything that is not an object.
\<close>

definition jlookup :: "jval \<Rightarrow> string \<Rightarrow> jval option" where
  "jlookup j k = (case j of JObj kvs \<Rightarrow> map_of kvs k | _ \<Rightarrow> None)"

definition is_number :: "jval \<Rightarrow> bool" where
  "is_number v = (case v of JInt _ \<Rightarrow> True | JFloat _ \<Rightarrow> True | _ \<Rightarrow> False)"

definition is_number_integer :: "jval \<Rightarrow> bool" where
  "is_number_integer v = (case v of JInt _ \<Rightarrow> True | _ \<Rightarrow> False)"

text \<open>Conversion of a double to an integer type truncates toward zero.\<close>

definition trunc_real :: "real \<Rightarrow> int" where
  "trunc_real x = (if 0 \<le> x then \<lfloor>x\<rfloor> else \<lceil>x\<rceil>)"

text \<open>
  The typed reads \<^verbatim>\<open>get<T>()\<close>; \<^term>\<open>None\<close> is the \<^verbatim>\<open>type_error\<close> the library
  throws. A \<^verbatim>\<open>double\<close>, \<^verbatim>\<open>long long\<close> or \<^verbatim>\<open>uint64_t\<close> is read from any number,
  an \<^verbatim>\<open>int\<close> from a number or a boolean, a \<^verbatim>\<open>bool\<close> from a boolean only. (On a
  platform where \<^verbatim>\<open>long long\<close> is not the library's 64-bit integer type the library
  reads it from a boolean too; nothing below depends on that case.) A negative
  integer read as \<^verbatim>\<open>uint64_t\<close> wraps around.
\<close>

definition get_as_double :: "jval \<Rightarrow> real option" where
  "get_as_double v = (case v of JInt i \<Rightarrow> Some (real_of_int i) | JFloat x \<Rightarrow> Some x | _ \<Rightarrow> None)"

definition get_as_long_long :: "jval \<Rightarrow> int option" where
  "get_as_long_long v =
     (case v of JInt i \<Rightarrow> Some i | JFloat x \<Rightarrow> Some (trunc_real x) | _ \<Rightarrow> None)"

definition get_as_int :: "jval \<Rightarrow> int option" where
  "get_as_int v =
     (case v of JInt i \<Rightarrow> Some i | JFloat x \<Rightarrow> Some (trunc_real x)
      | JBool b \<Rightarrow> Some (if b then 1 else 0) | _ \<Rightarrow> None)"

definition get_as_uint64 :: "jval \<Rightarrow> nat option" where
  "get_as_uint64 v =
     (case v of
        JInt i \<Rightarrow> Some (if i < 0 then nat (i + 18446744073709551616) else nat i)
      | JFloat x \<Rightarrow> Some (nat (trunc_real x)) | _ \<Rightarrow> None)"

definition get_as_bool :: "jval \<Rightarrow> bool option" where
  "get_as_bool v = (case v of JBool b \<Rightarrow> Some b | _ \<Rightarrow> None)"

subsection \<open>Configuration constants\<close>

definition HISTORICAL_TOTAL_IN :: real where "HISTORICAL_TOTAL_IN = 6277 / 100"
definition HISTORICAL_YEARLY_IN :: real where "HISTORICAL_YEARLY_IN = 6277 / 100"
definition HISTORICAL_MONTHLY_IN :: real where "HISTORICAL_MONTHLY_IN = 427 / 100"
definition HISTORICAL_WEEKLY_IN :: real where "HISTORICAL_WEEKLY_IN = 196 / 100"

definition EVENT_GAP_MIN :: int where "EVENT_GAP_MIN = 30"
definition HOURLY_WINDOW_SEC :: int where "HOURLY_WINDOW_SEC = 3600"
definition MIN_COVERAGE_SEC :: int where "MIN_COVERAGE_SEC = 12 * 3600"

subsection \<open>Types\<close>

record RainDelta =
  ts :: time_t
  inches :: real

text \<open>
  The struct \<^verbatim>\<open>WeatherStateV2\<close>, field by field. The field \<^verbatim>\<open>id\<close> is called
  \<open>station_id\<close>, the name \<open>id\<close> being taken.
\<close>

record WeatherStateV2 =
  battery_mV :: real
  battery_ok :: real
  station_id :: int
  model :: string
  firmware :: int
  humidity :: real
  temperature_C :: real
  wind_dir_deg :: real
  wind_avg_m_s :: real
  wind_max_m_s :: real
  light_lux :: real
  uvi :: real
  rain_mm :: real
  supercap_V :: real
  last_time_iso :: string
  last_rain_mm :: real
  last_update :: time_t
  rain_daily_in :: real
  rain_monthly_in :: real
  rain_yearly_in :: real
  rain_weekly_in :: real
  rain_hourly_in :: real
  rain_event_in :: real
  daily_ymd :: int
  month_ym :: int
  year_y :: int
  week_start_ymd :: int
  historical_total_in :: real
  historical_yearly_in :: real
  historical_monthly_in :: real
  historical_weekly_in :: real
  historical_seeded :: bool
  deltas :: "RainDelta list"
  last_rain_ts :: time_t
  have_temp :: bool
  temp_high_c :: real
  temp_low_c :: real
  have_hum :: bool
  hum_high :: real
  hum_low :: real
  day_first_ts :: time_t
  day_last_ts :: time_t
  have_wind :: bool
  wind_mean_m_s :: real
  wind_max_gust_m_s :: real
  wind_sample_count :: nat

text \<open>The value-initialised struct \<^verbatim>\<open>WeatherStateV2{}\<close>.\<close>

definition WeatherStateV2_init :: WeatherStateV2 where
  "WeatherStateV2_init =
     \<lparr> battery_mV = 0, battery_ok = 0, station_id = 0, model = [], firmware = 0,
       humidity = 0, temperature_C = 0, wind_dir_deg = 0, wind_avg_m_s = 0,
       wind_max_m_s = 0, light_lux = 0, uvi = 0, rain_mm = 0, supercap_V = 0,
       last_time_iso = [],
       last_rain_mm = 0, last_update = 0,
       rain_daily_in = 0, rain_monthly_in = 0, rain_yearly_in = 0,
       rain_weekly_in = 0, rain_hourly_in = 0, rain_event_in = 0,
       daily_ymd = 0, month_ym = 0, year_y = 0, week_start_ymd = 0,
       historical_total_in = HISTORICAL_TOTAL_IN,
       historical_yearly_in = HISTORICAL_YEARLY_IN,
       historical_monthly_in = HISTORICAL_MONTHLY_IN,
       historical_weekly_in = HISTORICAL_WEEKLY_IN,
       historical_seeded = False,
       deltas = [], last_rain_ts = 0,
       have_temp = False, temp_high_c = 0, temp_low_c = 0,
       have_hum = False, hum_high = 0, hum_low = 0,
       day_first_ts = 0, day_last_ts = 0,
       have_wind = False, wind_mean_m_s = 0, wind_max_gust_m_s = 0,
       wind_sample_count = 0 \<rparr>"

text \<open>
  One row of the table \<^verbatim>\<open>daily_weather\<close>; a NULL column is \<^term>\<open>None\<close>. The table
  is the list of its rows, \<^verbatim>\<open>day_ts\<close> being the primary key.
\<close>

record daily_row =
  day_ts :: time_t
  row_temp_high_c :: "real option"
  row_temp_low_c :: "real option"
  row_humidity_high :: "real option"
  row_humidity_low :: "real option"
  row_rain_in :: "real option"

type_synonym daily_weather = "daily_row list"

text \<open>What the snapshot file holds when it is opened and read.\<close>

datatype snapshot_file = NoFile | Unparseable | JsonDoc jval

text \<open>
  The globals: \<^verbatim>\<open>g_state\<close>, the database handle \<^verbatim>\<open>g_db\<close> (\<^term>\<open>None\<close> is the
  null handle left by a failed \<^verbatim>\<open>sqlite3_open\<close>) and the snapshot file.
\<close>

record globals =
  g_state :: WeatherStateV2
  g_db :: "daily_weather option"
  state_file :: snapshot_file

section \<open>Time helpers\<close>

definition ymd_from_time :: "libc \<Rightarrow> time_t \<Rightarrow> int" where
  "ymd_from_time L t =
     (let lt = localtime_r L t
      in (tm_year lt + 1900) * 10000 + (tm_mon lt + 1) * 100 + tm_mday lt)"

definition ym_from_time :: "libc \<Rightarrow> time_t \<Rightarrow> int" where
  "ym_from_time L t = (let lt = localtime_r L t in (tm_year lt + 1900) * 100 + (tm_mon lt + 1))"

definition y_from_time :: "libc \<Rightarrow> time_t \<Rightarrow> int" where
  "y_from_time L t = (let lt = localtime_r L t in tm_year lt + 1900)"

definition inches_from_mm :: "real \<Rightarrow> real" where
  "inches_from_mm mm = mm / (254 / 10)"

definition day_start_ts :: "libc \<Rightarrow> time_t \<Rightarrow> time_t" where
  "day_start_ts L t = mktime L ((localtime_r L t)\<lparr> tm_hour := 0, tm_min := 0, tm_sec := 0 \<rparr>)"

section \<open>State initialisation, load and save\<close>

definition init_state_defaults :: "libc \<Rightarrow> time_t \<Rightarrow> WeatherStateV2" where
  "init_state_defaults L now =
     WeatherStateV2_init
       \<lparr> last_update := now,
         daily_ymd := ymd_from_time L now,
         month_ym := ym_from_time L now,
         year_y := y_from_time L now,
         week_start_ymd := ymd_from_time L now,
         historical_seeded := True \<rparr>"

text \<open>
  One line \<^verbatim>\<open>if (j.contains(k)) st.f = j[k].get<T>();\<close> of \<^verbatim>\<open>load_state\<close>: the
  field is stored when the key is there, the state is left alone when it is not, and
  the result is \<^term>\<open>None\<close> when the read throws.
\<close>

definition load_field ::
  "jval \<Rightarrow> string \<Rightarrow> (jval \<Rightarrow> 'a option) \<Rightarrow> ('a \<Rightarrow> WeatherStateV2 \<Rightarrow> WeatherStateV2) \<Rightarrow>
   WeatherStateV2 option \<Rightarrow> WeatherStateV2 option" where
  "load_field j k rd store acc =
     (case acc of
        None \<Rightarrow> None
      | Some st \<Rightarrow>
          (case jlookup j k of
             None \<Rightarrow> Some st
           | Some v \<Rightarrow> (case rd v of None \<Rightarrow> None | Some x \<Rightarrow> Some (store x st))))"

text \<open>The body of the \<^verbatim>\<open>try\<close> block after the parse, in the order of the source.\<close>

definition load_fields :: "jval \<Rightarrow> WeatherStateV2 \<Rightarrow> WeatherStateV2 option" where
  "load_fields j st0 =
     fold (\<lambda>line acc. line acc)
      [ load_field j ''last_rain_mm'' get_as_double (\<lambda>v s. s\<lparr>last_rain_mm := v\<rparr>),
        load_field j ''last_update_ts'' get_as_long_long (\<lambda>v s. s\<lparr>last_update := v\<rparr>),
        load_field j ''rain_daily_in'' get_as_double (\<lambda>v s. s\<lparr>rain_daily_in := v\<rparr>),
        load_field j ''rain_monthly_in'' get_as_double (\<lambda>v s. s\<lparr>rain_monthly_in := v\<rparr>),
        load_field j ''rain_yearly_in'' get_as_double (\<lambda>v s. s\<lparr>rain_yearly_in := v\<rparr>),
        load_field j ''rain_weekly_in'' get_as_double (\<lambda>v s. s\<lparr>rain_weekly_in := v\<rparr>),
        load_field j ''rain_hourly_in'' get_as_double (\<lambda>v s. s\<lparr>rain_hourly_in := v\<rparr>),
        load_field j ''rain_event_in'' get_as_double (\<lambda>v s. s\<lparr>rain_event_in := v\<rparr>),
        load_field j ''daily_ymd'' get_as_int (\<lambda>v s. s\<lparr>daily_ymd := v\<rparr>),
        load_field j ''month_ym'' get_as_int (\<lambda>v s. s\<lparr>month_ym := v\<rparr>),
        load_field j ''year_y'' get_as_int (\<lambda>v s. s\<lparr>year_y := v\<rparr>),
        load_field j ''week_start_ymd'' get_as_int (\<lambda>v s. s\<lparr>week_start_ymd := v\<rparr>),
        load_field j ''historical_total_in'' get_as_double (\<lambda>v s. s\<lparr>historical_total_in := v\<rparr>),
        load_field j ''historical_yearly_in'' get_as_double (\<lambda>v s. s\<lparr>historical_yearly_in := v\<rparr>),
        load_field j ''historical_monthly_in'' get_as_double (\<lambda>v s. s\<lparr>historical_monthly_in := v\<rparr>),
        load_field j ''historical_weekly_in'' get_as_double (\<lambda>v s. s\<lparr>historical_weekly_in := v\<rparr>),
        load_field j ''historical_seeded'' get_as_bool (\<lambda>v s. s\<lparr>historical_seeded := v\<rparr>),
        load_field j ''temp_high_c'' get_as_double (\<lambda>v s. s\<lparr>temp_high_c := v\<rparr>),
        load_field j ''temp_low_c'' get_as_double (\<lambda>v s. s\<lparr>temp_low_c := v\<rparr>),
        load_field j ''have_temp'' get_as_bool (\<lambda>v s. s\<lparr>have_temp := v\<rparr>),
        load_field j ''hum_high'' get_as_double (\<lambda>v s. s\<lparr>hum_high := v\<rparr>),
        load_field j ''hum_low'' get_as_double (\<lambda>v s. s\<lparr>hum_low := v\<rparr>),
        load_field j ''have_hum'' get_as_bool (\<lambda>v s. s\<lparr>have_hum := v\<rparr>),
        load_field j ''have_wind'' get_as_bool (\<lambda>v s. s\<lparr>have_wind := v\<rparr>),
        load_field j ''wind_mean_m_s'' get_as_double (\<lambda>v s. s\<lparr>wind_mean_m_s := v\<rparr>),
        load_field j ''wind_max_gust_m_s'' get_as_double (\<lambda>v s. s\<lparr>wind_max_gust_m_s := v\<rparr>),
        load_field j ''wind_sample_count'' get_as_uint64 (\<lambda>v s. s\<lparr>wind_sample_count := v\<rparr>),
        load_field j ''day_first_ts'' get_as_long_long (\<lambda>v s. s\<lparr>day_first_ts := v\<rparr>),
        load_field j ''day_last_ts'' get_as_long_long (\<lambda>v s. s\<lparr>day_last_ts := v\<rparr>) ]
      (Some st0)"

text \<open>
  \<^verbatim>\<open>load_state\<close>. The file is missing, or its text does not parse, or it parses to
  \<open>j\<close>. The defaults are taken at \<open>now\<close>; when a read throws, the handler takes them
  again, at its own reading \<open>now'\<close> of the clock.
\<close>

definition load_state :: "libc \<Rightarrow> time_t \<Rightarrow> time_t \<Rightarrow> snapshot_file \<Rightarrow> WeatherStateV2" where
  "load_state L now now' f =
     (case f of
        NoFile \<Rightarrow> init_state_defaults L now
      | Unparseable \<Rightarrow> init_state_defaults L now'
      | JsonDoc j \<Rightarrow>
          (case load_fields j (init_state_defaults L now) of
             None \<Rightarrow> init_state_defaults L now'
           | Some st \<Rightarrow> st))"

text \<open>The JSON object \<^verbatim>\<open>save_state\<close> builds, key by key.\<close>

definition save_state_json :: "WeatherStateV2 \<Rightarrow> jval" where
  "save_state_json st = JObj
     [ (''last_rain_mm'', JFloat (last_rain_mm st)),
       (''last_update_ts'', JInt (last_update st)),
       (''rain_daily_in'', JFloat (rain_daily_in st)),
       (''rain_monthly_in'', JFloat (rain_monthly_in st)),
       (''rain_yearly_in'', JFloat (rain_yearly_in st)),
       (''rain_weekly_in'', JFloat (rain_weekly_in st)),
       (''rain_hourly_in'', JFloat (rain_hourly_in st)),
       (''rain_event_in'', JFloat (rain_event_in st)),
       (''daily_ymd'', JInt (daily_ymd st)),
       (''month_ym'', JInt (month_ym st)),
       (''year_y'', JInt (year_y st)),
       (''week_start_ymd'', JInt (week_start_ymd st)),
       (''historical_total_in'', JFloat (historical_total_in st)),
       (''historical_yearly_in'', JFloat (historical_yearly_in st)),
       (''historical_monthly_in'', JFloat (historical_monthly_in st)),
       (''historical_weekly_in'', JFloat (historical_weekly_in st)),
       (''historical_seeded'', JBool (historical_seeded st)),
       (''temp_high_c'', JFloat (temp_high_c st)),
       (''temp_low_c'', JFloat (temp_low_c st)),
       (''have_temp'', JBool (have_temp st)),
       (''hum_high'', JFloat (hum_high st)),
       (''hum_low'', JFloat (hum_low st)),
       (''have_hum'', JBool (have_hum st)),
       (''have_wind'', JBool (have_wind st)),
       (''wind_mean_m_s'', JFloat (wind_mean_m_s st)),
       (''wind_max_gust_m_s'', JFloat (wind_max_gust_m_s st)),
       (''wind_sample_count'', JInt (int (wind_sample_count st))),
       (''day_first_ts'', JInt (day_first_ts st)),
       (''day_last_ts'', JInt (day_last_ts st)) ]"

text \<open>
  \<^verbatim>\<open>save_state\<close> writes the text of that object to the snapshot file. The write is
  taken to succeed, and the text to parse back to the same object.
\<close>

definition save_state :: "globals \<Rightarrow> globals" where
  "save_state g = g\<lparr> state_file := JsonDoc (save_state_json (g_state g)) \<rparr>"

section \<open>The daily summary table\<close>

text \<open>
  \<^verbatim>\<open>INSERT OR REPLACE\<close> on the primary key \<^verbatim>\<open>day_ts\<close>. With an open database the
  statement of \<^verbatim>\<open>log_daily_to_db\<close> is taken to prepare and to run.
\<close>

definition insert_or_replace :: "daily_row \<Rightarrow> daily_weather \<Rightarrow> daily_weather" where
  "insert_or_replace r rows = filter (\<lambda>x. day_ts x \<noteq> day_ts r) rows @ [r]"

definition log_daily_to_db ::
  "time_t \<Rightarrow> WeatherStateV2 \<Rightarrow> real \<Rightarrow> daily_weather option \<Rightarrow> daily_weather option" where
  "log_daily_to_db day st rain_in db =
     (case db of
        None \<Rightarrow> None
      | Some rows \<Rightarrow>
          Some (insert_or_replace
            \<lparr> day_ts = day,
              row_temp_high_c = (if have_temp st then Some (temp_high_c st) else None),
              row_temp_low_c = (if have_temp st then Some (temp_low_c st) else None),
              row_humidity_high = (if have_hum st then Some (hum_high st) else None),
              row_humidity_low = (if have_hum st then Some (hum_low st) else None),
              row_rain_in = Some rain_in \<rparr> rows))"

section \<open>Rain logic\<close>

text \<open>
  The loop of \<^verbatim>\<open>recompute_hourly\<close>: the entries inside the window are moved to the
  front of the vector in their order (\<open>kept\<close>, the first \<open>w\<close> cells) and summed.
\<close>

fun recompute_loop :: "time_t \<Rightarrow> RainDelta list \<Rightarrow> RainDelta list \<Rightarrow> real \<Rightarrow> RainDelta list \<times> real" where
  "recompute_loop now [] kept acc = (kept, acc)"
| "recompute_loop now (x # xs) kept acc =
     (if now - ts x \<le> HOURLY_WINDOW_SEC
      then recompute_loop now xs (kept @ [x]) (acc + inches x)
      else recompute_loop now xs kept acc)"

definition recompute_hourly :: "time_t \<Rightarrow> WeatherStateV2 \<Rightarrow> WeatherStateV2" where
  "recompute_hourly now st =
     (case recompute_loop now (deltas st) [] 0 of
        (v, acc) \<Rightarrow> st\<lparr> deltas := v, rain_hourly_in := acc \<rparr>)"

text \<open>
  \<^verbatim>\<open>rollover_if_needed\<close>, block by block: the adoption of the current keys by keys
  that are still zero, then the day, month, year and week checks.
\<close>

definition adopt_keys :: "libc \<Rightarrow> time_t \<Rightarrow> WeatherStateV2 \<Rightarrow> WeatherStateV2" where
  "adopt_keys L now st =
     (let d = ymd_from_time L now; m = ym_from_time L now; y = y_from_time L now;
          st = (if daily_ymd st = 0 then st\<lparr>daily_ymd := d\<rparr> else st);
          st = (if month_ym st = 0 then st\<lparr>month_ym := m\<rparr> else st);
          st = (if year_y st = 0 then st\<lparr>year_y := y\<rparr> else st);
          st = (if week_start_ymd st = 0 then st\<lparr>week_start_ymd := d\<rparr> else st)
      in st)"

definition day_rollover :: "libc \<Rightarrow> time_t \<Rightarrow> globals \<Rightarrow> globals" where
  "day_rollover L now g =
     (let st = g_state g; d = ymd_from_time L now
      in if d \<noteq> daily_ymd st then
           let prev_day_ts = day_start_ts L (if day_first_ts st \<noteq> 0 then day_first_ts st else now - 86400);
               ok = (day_first_ts st \<noteq> 0 \<and> day_last_ts st \<noteq> 0 \<and>
                     day_last_ts st - day_first_ts st \<ge> MIN_COVERAGE_SEC);
               db = (if ok then log_daily_to_db prev_day_ts st (rain_daily_in st) (g_db g) else g_db g)
           in g\<lparr> g_db := db,
                 g_state := st\<lparr> rain_daily_in := 0, daily_ymd := d,
                                 day_first_ts := now, day_last_ts := now,
                                 have_temp := False, have_hum := False,
                                 have_wind := False, wind_mean_m_s := 0,
                                 wind_max_gust_m_s := 0, wind_sample_count := 0 \<rparr> \<rparr>
         else g)"

definition month_rollover :: "libc \<Rightarrow> time_t \<Rightarrow> WeatherStateV2 \<Rightarrow> WeatherStateV2" where
  "month_rollover L now st =
     (let m = ym_from_time L now
      in if m \<noteq> month_ym st then st\<lparr> rain_monthly_in := 0, month_ym := m \<rparr> else st)"

definition year_rollover :: "libc \<Rightarrow> time_t \<Rightarrow> WeatherStateV2 \<Rightarrow> WeatherStateV2" where
  "year_rollover L now st =
     (let y = y_from_time L now
      in if y \<noteq> year_y st then st\<lparr> rain_yearly_in := 0, year_y := y \<rparr> else st)"

definition week_start_tm :: "int \<Rightarrow> tm" where
  "week_start_tm ymd =
     \<lparr> tm_year = c_div ymd 10000 - 1900,
       tm_mon = c_mod (c_div ymd 100) 100 - 1,
       tm_mday = c_mod ymd 100,
       tm_hour = 0, tm_min = 0, tm_sec = 0 \<rparr>"

definition week_rollover :: "libc \<Rightarrow> time_t \<Rightarrow> WeatherStateV2 \<Rightarrow> WeatherStateV2" where
  "week_rollover L now st =
     (let d = ymd_from_time L now;
          ws_ts = mktime L (week_start_tm (week_start_ymd st));
          today_ts = day_start_ts L now
      in if today_ts - ws_ts \<ge> 7 * 86400
         then st\<lparr> rain_weekly_in := 0, week_start_ymd := d \<rparr> else st)"

definition rollover_if_needed :: "libc \<Rightarrow> time_t \<Rightarrow> globals \<Rightarrow> globals" where
  "rollover_if_needed L now g =
     (let g = g\<lparr> g_state := adopt_keys L now (g_state g) \<rparr>;
          g = day_rollover L now g;
          g = g\<lparr> g_state := month_rollover L now (g_state g) \<rparr>;
          g = g\<lparr> g_state := year_rollover L now (g_state g) \<rparr>;
          g = g\<lparr> g_state := week_rollover L now (g_state g) \<rparr>
      in g)"

section \<open>Processing one WS90 sample\<close>

text \<open>
  The three readers of \<^verbatim>\<open>process_ws90_json_locked\<close>. \<open>get_num_nan\<close> is \<^verbatim>\<open>get_num(k, NAN)\<close>
  followed by the test \<^verbatim>\<open>!std::isnan\<close>: \<^term>\<open>None\<close> when the default was taken.
\<close>

definition get_num :: "jval \<Rightarrow> string \<Rightarrow> real \<Rightarrow> real" where
  "get_num j k d =
     (case jlookup j k of
        None \<Rightarrow> d
      | Some v \<Rightarrow> if is_number v then (case get_as_double v of Some x \<Rightarrow> x | None \<Rightarrow> d) else d)"

definition get_num_nan :: "jval \<Rightarrow> string \<Rightarrow> real option" where
  "get_num_nan j k =
     (case jlookup j k of
        None \<Rightarrow> None
      | Some v \<Rightarrow> if is_number v then get_as_double v else None)"

definition get_int :: "jval \<Rightarrow> string \<Rightarrow> int \<Rightarrow> int" where
  "get_int j k d =
     (case jlookup j k of
        None \<Rightarrow> d
      | Some v \<Rightarrow> if is_number_integer v then (case get_as_int v of Some x \<Rightarrow> x | None \<Rightarrow> d) else d)"

definition get_str :: "jval \<Rightarrow> string \<Rightarrow> string \<Rightarrow> string" where
  "get_str j k d = (case jlookup j k of Some (JStr s) \<Rightarrow> s | _ \<Rightarrow> d)"

text \<open>The block "Basic WS90 telemetry".\<close>

definition basic_telemetry :: "jval \<Rightarrow> WeatherStateV2 \<Rightarrow> WeatherStateV2" where
  "basic_telemetry j st =
     st\<lparr> battery_mV := get_num j ''battery_mV'' 0,
         battery_ok := get_num j ''battery_ok'' 0,
         station_id := get_int j ''id'' 0,
         model := get_str j ''model'' [],
         firmware := get_int j ''firmware'' 0,
         humidity := get_num j ''humidity'' 0,
         temperature_C := get_num j ''temperature_C'' 0,
         wind_dir_deg := get_num j ''wind_dir_deg'' 0,
         wind_avg_m_s := get_num j ''wind_avg_m_s'' 0,
         wind_max_m_s := get_num j ''wind_max_m_s'' 0,
         light_lux := get_num j ''light_lux'' 0,
         uvi := get_num j ''uvi'' 0,
         rain_mm := get_num j ''rain_mm'' 0,
         supercap_V := get_num j ''supercap_V'' 0,
         last_time_iso := get_str j ''time'' [] \<rparr>"

text \<open>The block "Rain accumulation based on delta", up to the update of the event.\<close>

definition accumulate_rain :: "time_t \<Rightarrow> real \<Rightarrow> WeatherStateV2 \<Rightarrow> WeatherStateV2" where
  "accumulate_rain now reading st =
     (let delta = reading - last_rain_mm st
      in if delta > 1 / 10000 \<and> delta < 5000 then
           let di = inches_from_mm delta;
               st = st\<lparr> rain_daily_in := rain_daily_in st + di,
                        rain_monthly_in := rain_monthly_in st + di,
                        rain_yearly_in := rain_yearly_in st + di,
                        rain_weekly_in := rain_weekly_in st + di \<rparr>;
               st = st\<lparr> deltas := deltas st @ [\<lparr> ts = now, inches = di \<rparr>] \<rparr>;
               st = recompute_hourly now st;
               st = (if last_rain_ts st = 0 \<or> now - last_rain_ts st > EVENT_GAP_MIN * 60
                     then st\<lparr> rain_event_in := 0 \<rparr> else st)
           in st\<lparr> rain_event_in := rain_event_in st + di, last_rain_ts := now \<rparr>
         else st)"

text \<open>The three tracking blocks.\<close>

definition track_temperature :: "jval \<Rightarrow> WeatherStateV2 \<Rightarrow> WeatherStateV2" where
  "track_temperature j st =
     (case get_num_nan j ''temperature_C'' of
        None \<Rightarrow> st
      | Some tC \<Rightarrow>
          if \<not> have_temp st
          then st\<lparr> temp_high_c := tC, temp_low_c := tC, have_temp := True \<rparr>
          else st\<lparr> temp_high_c := max (temp_high_c st) tC, temp_low_c := min (temp_low_c st) tC \<rparr>)"

definition track_humidity :: "jval \<Rightarrow> WeatherStateV2 \<Rightarrow> WeatherStateV2" where
  "track_humidity j st =
     (case get_num_nan j ''humidity'' of
        None \<Rightarrow> st
      | Some h \<Rightarrow>
          if \<not> have_hum st
          then st\<lparr> hum_high := h, hum_low := h, have_hum := True \<rparr>
          else st\<lparr> hum_high := max (hum_high st) h, hum_low := min (hum_low st) h \<rparr>)"

text \<open>
  The wind block tests the stored \<^verbatim>\<open>wind_avg_m_s\<close> and \<^verbatim>\<open>wind_max_m_s\<close> for NaN; both
  were just read with the default 0.0, so the test passes.
\<close>

definition track_wind :: "WeatherStateV2 \<Rightarrow> WeatherStateV2" where
  "track_wind st =
     (if \<not> have_wind st
      then st\<lparr> have_wind := True, wind_mean_m_s := wind_avg_m_s st,
               wind_max_gust_m_s := wind_max_m_s st, wind_sample_count := 1 \<rparr>
      else
        let n = wind_sample_count st;
            st = st\<lparr> wind_mean_m_s := (wind_mean_m_s st * real n + wind_avg_m_s st) / real (n + 1),
                     wind_sample_count := n + 1 \<rparr>
        in if wind_max_m_s st > wind_max_gust_m_s st
           then st\<lparr> wind_max_gust_m_s := wind_max_m_s st \<rparr> else st)"

text \<open>
  How a call ends: it returns, or \<^verbatim>\<open>j["rain_mm"].get<double>()\<close> throws (the key is
  there and its value is not a number), which the poller catches; what was stored
  into \<^verbatim>\<open>g_state\<close> before stays.
\<close>

datatype outcome = Returned | Threw

definition process_ws90_json_locked :: "libc \<Rightarrow> time_t \<Rightarrow> jval \<Rightarrow> globals \<Rightarrow> outcome \<times> globals" where
  "process_ws90_json_locked L now j g =
     (let g = g\<lparr> g_state := basic_telemetry j (g_state g) \<rparr>
      in case jlookup j ''rain_mm'' of
           None \<Rightarrow> (Returned, g\<lparr> g_state := (g_state g)\<lparr> last_update := now \<rparr> \<rparr>)
         | Some v \<Rightarrow>
            (case get_as_double v of
               None \<Rightarrow> (Threw, g)
             | Some reading \<Rightarrow>
                 if reading < 0 \<or> reading > 20000
                 then (Returned, g\<lparr> g_state := (g_state g)\<lparr> last_update := now \<rparr> \<rparr>)
                 else
                   let g = rollover_if_needed L now g;
                       st = g_state g;
                       st = (if day_first_ts st = 0 then st\<lparr> day_first_ts := now \<rparr> else st);
                       st = st\<lparr> day_last_ts := now \<rparr>
                   in if last_rain_mm st = 0
                      then (Returned,
                            save_state (g\<lparr> g_state := st\<lparr> last_rain_mm := reading, last_update := now \<rparr> \<rparr>))
                      else
                        let st = accumulate_rain now reading st;
                            st = st\<lparr> last_rain_mm := reading, last_update := now \<rparr>;
                            st = track_temperature j st;
                            st = track_humidity j st;
                            st = track_wind st
                        in (Returned, save_state (g\<lparr> g_state := st \<rparr>))))"

text \<open>
  \<^verbatim>\<open>state_v2::init\<close>: the state is loaded from the snapshot file and the database is
  opened (\<open>db\<close> is the table found, \<^term>\<open>None\<close> when it cannot be opened).
\<close>

definition init :: "libc \<Rightarrow> time_t \<Rightarrow> time_t \<Rightarrow> snapshot_file \<Rightarrow> daily_weather option \<Rightarrow> globals" where
  "init L now now' f db = \<lparr> g_state = load_state L now now' f, g_db = db, state_file = f \<rparr>"

text \<open>
  The poller hands every sample it fetched to \<^verbatim>\<open>process_ws90_json_locked\<close>; a run of
  polls is the list of the samples with the time of each call.
\<close>

definition poll :: "libc \<Rightarrow> time_t \<times> jval \<Rightarrow> globals \<Rightarrow> globals" where
  "poll L s g = snd (process_ws90_json_locked L (fst s) (snd s) g)"

definition polls :: "libc \<Rightarrow> (time_t \<times> jval) list \<Rightarrow> globals \<Rightarrow> globals" where
  "polls L samples g = fold (poll L) samples g"

section \<open>The current snapshot\<close>

text \<open>The member \<^verbatim>\<open>rain\<close> of the object that \<^verbatim>\<open>build_current_json\<close> returns.\<close>

definition build_current_json_rain :: "WeatherStateV2 \<Rightarrow> (string \<times> jval) list" where
  "build_current_json_rain st =
     (let total_in = historical_total_in st;
          total_in = (if rain_yearly_in st > historical_yearly_in st
                      then total_in + (rain_yearly_in st - historical_yearly_in st)
                      else total_in)
      in [ (''daily_in'', JFloat (rain_daily_in st)),
           (''event_in'', JFloat (rain_event_in st)),
           (''hourly_in'', JFloat (rain_hourly_in st)),
           (''weekly_in'', JFloat (rain_weekly_in st)),
           (''monthly_in'', JFloat (rain_monthly_in st)),
           (''yearly_in'', JFloat (rain_yearly_in st)),
           (''total_in'', JFloat total_in) ])"

section \<open>History queries\<close>

text \<open>
  The three history functions build the same statement over their own columns. A
  statement is \<^verbatim>\<open>SELECT ... FROM daily_weather [WHERE day_ts >= since] ORDER BY day_ts
  [LIMIT l OFFSET o]\<close> with its bound parameters: the bound of the \<^verbatim>\<open>WHERE\<close> clause
  when there is one, and the pair bound to \<^verbatim>\<open>LIMIT\<close> and \<^verbatim>\<open>OFFSET\<close> when they are there.
\<close>

record sql_select =
  where_since :: "time_t option"
  limit_offset :: "(int \<times> int) option"

definition history_statement :: "int \<Rightarrow> int \<Rightarrow> int \<Rightarrow> time_t \<Rightarrow> sql_select" where
  "history_statement days limit offset now =
     (let simple = (days < 0 \<and> limit < 0 \<and> offset < 0);
          time_only = (days \<ge> 0 \<and> limit < 0 \<and> offset < 0);
          paged = (\<not> simple \<and> \<not> time_only)
      in if simple then \<lparr> where_since = None, limit_offset = None \<rparr>
         else if time_only then
           (if days = 0 then \<lparr> where_since = None, limit_offset = None \<rparr>
            else \<lparr> where_since = Some (now - days * 86400), limit_offset = None \<rparr>)
         else
           (let use_since = (days > 0)
            in if use_since
               then \<lparr> where_since = Some (now - days * 86400), limit_offset = Some (limit, offset) \<rparr>
               else \<lparr> where_since = None, limit_offset = Some (limit, offset) \<rparr>))"

text \<open>
  What SQLite returns for such a statement: the rows in ascending key order, those
  below the bound left out, then \<^verbatim>\<open>OFFSET\<close> rows skipped and at most \<^verbatim>\<open>LIMIT\<close> rows
  kept (a negative \<^verbatim>\<open>LIMIT\<close> is no limit, a negative \<^verbatim>\<open>OFFSET\<close> is 0).
\<close>

definition run_select :: "sql_select \<Rightarrow> daily_weather \<Rightarrow> daily_row list" where
  "run_select q tbl =
     (let rows = sort_key day_ts tbl;
          rows = (case where_since q of None \<Rightarrow> rows | Some since \<Rightarrow> filter (\<lambda>r. day_ts r \<ge> since) rows)
      in case limit_offset q of
           None \<Rightarrow> rows
         | Some (l, off) \<Rightarrow>
             (let rest = drop (nat off) rows in if l < 0 then rest else take (nat l) rest))"

definition history_rows :: "time_t \<Rightarrow> int \<Rightarrow> int \<Rightarrow> int \<Rightarrow> daily_weather \<Rightarrow> daily_row list" where
  "history_rows now days limit offset tbl = run_select (history_statement days limit offset now) tbl"

definition temperature_row :: "daily_row \<Rightarrow> jval" where
  "temperature_row r =
     (case (row_temp_high_c r, row_temp_low_c r) of
        (Some hi, Some lo) \<Rightarrow>
          JObj [ (''day'', JInt (day_ts r)),
                 (''temp_high_F'', JFloat (hi * 9 / 5 + 32)),
                 (''temp_low_F'', JFloat (lo * 9 / 5 + 32)) ]
      | _ \<Rightarrow> JObj [ (''day'', JInt (day_ts r)), (''temp_high_F'', JNull), (''temp_low_F'', JNull) ])"

definition humidity_row :: "daily_row \<Rightarrow> jval" where
  "humidity_row r =
     (case (row_humidity_high r, row_humidity_low r) of
        (Some hi, Some lo) \<Rightarrow>
          JObj [ (''day'', JInt (day_ts r)), (''humidity_high'', JFloat hi), (''humidity_low'', JFloat lo) ]
      | _ \<Rightarrow> JObj [ (''day'', JInt (day_ts r)), (''humidity_high'', JNull), (''humidity_low'', JNull) ])"

text \<open>The loop of \<^verbatim>\<open>history_rain_json\<close> over the rows returned: a NULL is skipped.\<close>

fun rain_rows :: "daily_row list \<Rightarrow> jval list" where
  "rain_rows [] = []"
| "rain_rows (r # rs) =
     (case row_rain_in r of
        None \<Rightarrow> rain_rows rs
      | Some x \<Rightarrow> JObj [ (''day'', JInt (day_ts r)), (''rain_in'', JFloat x) ] # rain_rows rs)"

text \<open>
  Each function returns the array \<^verbatim>\<open>days\<close>, empty when there is no database; with a
  database the statement is taken to prepare.
\<close>

definition history_temperature_json :: "daily_weather option \<Rightarrow> time_t \<Rightarrow> int \<Rightarrow> int \<Rightarrow> int \<Rightarrow> jval list" where
  "history_temperature_json db now days limit offset =
     (case db of
        None \<Rightarrow> []
      | Some tbl \<Rightarrow> map temperature_row (history_rows now days limit offset tbl))"

definition history_humidity_json :: "daily_weather option \<Rightarrow> time_t \<Rightarrow> int \<Rightarrow> int \<Rightarrow> int \<Rightarrow> jval list" where
  "history_humidity_json db now days limit offset =
     (case db of
        None \<Rightarrow> []
      | Some tbl \<Rightarrow> map humidity_row (history_rows now days limit offset tbl))"

definition history_rain_json :: "daily_weather option \<Rightarrow> time_t \<Rightarrow> int \<Rightarrow> int \<Rightarrow> int \<Rightarrow> jval list" where
  "history_rain_json db now days limit offset =
     (case db of
        None \<Rightarrow> []
      | Some tbl \<Rightarrow> rain_rows (history_rows now days limit offset tbl))"

section \<open>The HTTP route\<close>

text \<open>
  A request: method, path and the query arguments in the order the HTTP library
  iterates over them; an argument written without \<^verbatim>\<open>=\<close> has no value.
\<close>

record request =
  req_method :: string
  req_url :: string
  req_args :: "(string \<times> string option) list"

definition tolower_char :: "char \<Rightarrow> char" where
  "tolower_char c =
     (if CHR ''A'' \<le> c \<and> c \<le> CHR ''Z'' then char_of (of_char c + (32 :: nat)) else c)"

definition strcasecmp_eq :: "string \<Rightarrow> string \<Rightarrow> bool" where
  "strcasecmp_eq a b = (map tolower_char a = map tolower_char b)"

fun get_query_value_ci :: "(string \<times> string option) list \<Rightarrow> string \<Rightarrow> string option" where
  "get_query_value_ci [] name = None"
| "get_query_value_ci ((key, None) # rest) name = get_query_value_ci rest name"
| "get_query_value_ci ((key, Some val) # rest) name =
     (if strcasecmp_eq key name then Some val else get_query_value_ci rest name)"

text \<open>
  \<^verbatim>\<open>strtol(val, &end, 10)\<close>: white space, an optional sign, then decimal digits; the
  result is \<^term>\<open>None\<close> when no digit was read (\<^verbatim>\<open>end == val\<close>), and a value outside
  \<^verbatim>\<open>long\<close> is replaced by the nearest bound.
\<close>

definition isspace_char :: "char \<Rightarrow> bool" where
  "isspace_char c = (c \<in> set [CHR '' '', CHR 0x09, CHR 0x0A, CHR 0x0B, CHR 0x0C, CHR 0x0D])"

definition isdigit_char :: "char \<Rightarrow> bool" where
  "isdigit_char c = (CHR ''0'' \<le> c \<and> c \<le> CHR ''9'')"

definition digits_value :: "string \<Rightarrow> int" where
  "digits_value ds = foldl (\<lambda>a c. 10 * a + (int (of_char c) - 48)) 0 ds"

definition strtol :: "string \<Rightarrow> int option" where
  "strtol val =
     (let s = dropWhile isspace_char val;
          neg = (s \<noteq> [] \<and> hd s = CHR ''-'');
          s = (if s \<noteq> [] \<and> (hd s = CHR ''-'' \<or> hd s = CHR ''+'') then tl s else s);
          ds = takeWhile isdigit_char s
      in if ds = [] then None
         else let v = (if neg then - digits_value ds else digits_value ds)
              in Some (max (- 9223372036854775808) (min 9223372036854775807 v)))"

definition get_query_int_ci ::
  "(string \<times> string option) list \<Rightarrow> string \<Rightarrow> int \<Rightarrow> int \<Rightarrow> int \<Rightarrow> int" where
  "get_query_int_ci args name default_value min_value max_value =
     (case get_query_value_ci args name of
        None \<Rightarrow> default_value
      | Some val \<Rightarrow>
          if val = [] then default_value
          else (case strtol val of
                  None \<Rightarrow> default_value
                | Some v \<Rightarrow>
                    (let v = (if v < min_value then min_value else v);
                         v = (if v > max_value then max_value else v)
                     in v)))"

definition DEFAULT_LIMIT :: int where "DEFAULT_LIMIT = 100"
definition DEFAULT_OFFSET :: int where "DEFAULT_OFFSET = 0"
definition MAX_LIMIT :: int where "MAX_LIMIT = 365"

definition has_param :: "(string \<times> string option) list \<Rightarrow> string \<Rightarrow> bool" where
  "has_param args name = (case get_query_value_ci args name of None \<Rightarrow> False | Some val \<Rightarrow> val \<noteq> [])"

text \<open>The triple \<open>(days, limit, offset)\<close> that \<^verbatim>\<open>api_v2::route\<close> passes on.\<close>

definition route_params :: "(string \<times> string option) list \<Rightarrow> int \<times> int \<times> int" where
  "route_params args =
     (let has_days = has_param args ''days'';
          has_limit = has_param args ''limit'';
          has_offset = has_param args ''offset''
      in if \<not> has_days \<and> \<not> has_limit \<and> \<not> has_offset then (- 1, - 1, - 1)
         else if has_days \<and> \<not> has_limit \<and> \<not> has_offset
         then (get_query_int_ci args ''days'' 0 0 3650, - 1, - 1)
         else (get_query_int_ci args ''days'' 0 0 3650,
               get_query_int_ci args ''limit'' DEFAULT_LIMIT 1 MAX_LIMIT,
               get_query_int_ci args ''offset'' DEFAULT_OFFSET 0 1000000))"

text \<open>
  What \<^verbatim>\<open>api_v2::route\<close> answers: the HTTP status and the body, which is a literal
  text or the result of one of the four functions of \<^verbatim>\<open>state_v2\<close>.
\<close>

datatype body =
    Literal string
  | Current_weather
  | History_temperature int int int
  | History_humidity int int int
  | History_rain int int int

definition route :: "request \<Rightarrow> nat \<times> body" where
  "route req =
     (if req_method req = ''OPTIONS'' then (204, Literal [])
      else if req_method req \<noteq> ''GET'' then (405, Literal ''{\"error\":\"method not allowed\"}'')
      else case route_params (req_args req) of
        (days, limit, offset) \<Rightarrow>
          if req_url req = ''/api/v2/weather'' then (200, Current_weather)
          else if req_url req = ''/api/v2/history/temperature''
          then (200, History_temperature days limit offset)
          else if req_url req = ''/api/v2/history/humidity''
          then (200, History_humidity days limit offset)
          else if req_url req = ''/api/v2/history/rain''
          then (200, History_rain days limit offset)
          else (404, Literal ''{\"error\":\"unknown endpoint\"}''))"

section \<open>A C library to run the model on\<close>

text \<open>
  The theorems hold for every \<open>L\<close>. To evaluate the model on concrete samples, the
  calendar of the time zone UTC: the civil date of a day number, the day number of a
  civil date (proleptic Gregorian calendar), and the two library functions on them.
\<close>

definition days_from_civil :: "int \<Rightarrow> int \<Rightarrow> int \<Rightarrow> int" where
  "days_from_civil y m d =
     (let y = (if m \<le> 2 then y - 1 else y);
          era = y div 400;
          yoe = y - era * 400;
          mp = (m + 9) mod 12;
          doy = (153 * mp + 2) div 5 + d - 1;
          doe = yoe * 365 + yoe div 4 - yoe div 100 + doy
      in era * 146097 + doe - 719468)"

definition civil_from_days :: "int \<Rightarrow> int \<times> int \<times> int" where
  "civil_from_days z =
     (let z = z + 719468;
          era = z div 146097;
          doe = z - era * 146097;
          yoe = (doe - doe div 1460 + doe div 36524 - doe div 146096) div 365;
          doy = doe - (365 * yoe + yoe div 4 - yoe div 100);
          mp = (5 * doy + 2) div 153;
          d = doy - (153 * mp + 2) div 5 + 1;
          m = (if mp < 10 then mp + 3 else mp - 9);
          y = yoe + era * 400
      in (if m \<le> 2 then y + 1 else y, m, d))"

definition utc_localtime :: "time_t \<Rightarrow> tm" where
  "utc_localtime t =
     (case civil_from_days (t div 86400) of
        (y, m, d) \<Rightarrow>
          \<lparr> tm_year = y - 1900, tm_mon = m - 1, tm_mday = d,
            tm_hour = t mod 86400 div 3600, tm_min = t mod 3600 div 60, tm_sec = t mod 60 \<rparr>)"

definition utc_mktime :: "tm \<Rightarrow> time_t" where
  "utc_mktime x =
     (days_from_civil (tm_year x + 1900 + tm_mon x div 12) (tm_mon x mod 12 + 1) 1 + tm_mday x - 1) * 86400
       + tm_hour x * 3600 + tm_min x * 60 + tm_sec x"

definition utc :: libc where
  "utc = \<lparr> localtime_r = utc_localtime, mktime = utc_mktime \<rparr>"

section \<open>Samples to run the model on\<close>

text \<open>Midnight of 1 January 2027, UTC, and a sample with a rain reading and a temperature.\<close>

definition new_year_2027 :: time_t where
  "new_year_2027 = 1798761600"

definition ws90_sample :: "real \<Rightarrow> real \<Rightarrow> jval" where
  "ws90_sample mm tC =
     JObj [ (''temperature_C'', JFloat tC), (''humidity'', JInt 50), (''wind_avg_m_s'', JFloat 2),
            (''wind_max_m_s'', JFloat 3), (''rain_mm'', JFloat mm) ]"


text \<open>
  The last day of 2026, started afresh at midnight, with two samples twelve hours
  apart: the first seeds the rain counter, the second brings 1.27 mm.
\<close>

definition covered_day :: globals where
  "covered_day =
     polls utc [ (new_year_2027 - 86400, ws90_sample 100 20),
                 (new_year_2027 - 43200, ws90_sample (10127 / 100) 25) ]
       (init utc (new_year_2027 - 86400) (new_year_2027 - 86400) NoFile (Some []))"

text \<open>
  A state at midnight of 1 January 2027 whose four keys are, each on its own, those of
  that day or older ones: the day before, the month before, the year before, a week
  before.
\<close>

definition rollover_probe :: "bool \<Rightarrow> bool \<Rightarrow> bool \<Rightarrow> bool \<Rightarrow> globals" where
  "rollover_probe day month year week =
     \<lparr> g_state = (init_state_defaults utc new_year_2027)
         \<lparr> rain_daily_in := 1, rain_monthly_in := 2, rain_yearly_in := 3,
           rain_weekly_in := 4, rain_hourly_in := 5, rain_event_in := 6,
           daily_ymd := (if day then 20261231 else 20270101),
           month_ym := (if month then 202612 else 202701),
           year_y := (if year then 2026 else 2027),
           week_start_ymd := (if week then 20261225 else 20270101) \<rparr>,
       g_db = None, state_file = NoFile \<rparr>"

text \<open>A sample that has no rain reading.\<close>

definition sample_without_rain :: jval where
  "sample_without_rain = JObj [ (''temperature_C'', JFloat 35), (''humidity'', JInt 90) ]"

text \<open>
  A fresh start at midnight, a seeding sample, 1.27 mm of rain a minute later, and
  then the same reading again after 4000 dry seconds.
\<close>

definition dry_hour :: globals where
  "dry_hour =
     polls utc [ (new_year_2027, ws90_sample 100 20),
                 (new_year_2027 + 60, ws90_sample (10127 / 100) 21),
                 (new_year_2027 + 4060, ws90_sample (10127 / 100) 22) ]
       (init utc new_year_2027 new_year_2027 NoFile (Some []))"

text \<open>
  A table with a day ten days and a day one day before \<open>new_year_2027\<close>; the older day
  has temperatures and no rain value, the newer one rain and no temperatures.
\<close>

definition wet_day :: daily_row where
  "wet_day =
     \<lparr> day_ts = new_year_2027 - 86400,
       row_temp_high_c = None, row_temp_low_c = None,
       row_humidity_high = Some 80, row_humidity_low = Some 40,
       row_rain_in = Some (1 / 4) \<rparr>"

definition warm_day :: daily_row where
  "warm_day =
     \<lparr> day_ts = new_year_2027 - 864000,
       row_temp_high_c = Some 25, row_temp_low_c = Some 10,
       row_humidity_high = None, row_humidity_low = None,
       row_rain_in = None \<rparr>"

definition two_days :: daily_weather where
  "two_days = [wet_day, warm_day]"

text \<open>The query strings \<^verbatim>\<open>?days=7&limit=1&offset=0\<close> and \<^verbatim>\<open>?days=7\<close>.\<close>

definition paged_query :: "(string \<times> string option) list" where
  "paged_query = [(''days'', Some ''7''), (''limit'', Some ''1''), (''offset'', Some ''0'')]"

definition days_query :: "(string \<times> string option) list" where
  "days_query = [(''days'', Some ''7'')]"

text \<open>
  The query string \<^verbatim>\<open>?Days=abc&LIMIT=5000&offset=-3\<close> and a \<^verbatim>\<open>GET\<close> of the rain history
  with it.
\<close>

definition messy_query :: "(string \<times> string option) list" where
  "messy_query = [(''Days'', Some ''abc''), (''LIMIT'', Some ''5000''), (''offset'', Some ''-3'')]"

definition messy_request :: request where
  "messy_request = \<lparr> req_method = ''GET'', req_url = ''/api/v2/history/rain'', req_args = messy_query \<rparr>"

text \<open>A fresh start at midnight, a seeding sample, and 1.27 mm of rain a minute later.\<close>

definition rainy_minute :: globals where
  "rainy_minute =
     polls utc [ (new_year_2027, ws90_sample 100 20),
                 (new_year_2027 + 60, ws90_sample (10127 / 100) 21) ]
       (init utc new_year_2027 new_year_2027 NoFile (Some []))"

text \<open>A snapshot file that parses and holds a text where a number is expected.\<close>

definition snapshot_with_text :: jval where
  "snapshot_with_text = JObj [ (''rain_daily_in'', JFloat (1 / 4)), (''daily_ymd'', JStr ''today'') ]"

section \<open>Frame properties of the processing steps\<close>

text \<open>
  Each step of the processing is put in the form \<open>st\<lparr>field := value, \<dots>\<rparr>\<close>, which names
  the fields the step can change; every other field is read off unchanged.
\<close>

lemma adopt_keys_eq:
  "adopt_keys L now st =
     st\<lparr> daily_ymd := (if daily_ymd st = 0 then ymd_from_time L now else daily_ymd st),
         month_ym := (if month_ym st = 0 then ym_from_time L now else month_ym st),
         year_y := (if year_y st = 0 then y_from_time L now else year_y st),
         week_start_ymd := (if week_start_ymd st = 0 then ymd_from_time L now else week_start_ymd st) \<rparr>"
  by (simp add: adopt_keys_def Let_def)

lemma month_rollover_eq:
  "month_rollover L now st =
     st\<lparr> rain_monthly_in := (if ym_from_time L now \<noteq> month_ym st then 0 else rain_monthly_in st),
         month_ym := ym_from_time L now \<rparr>"
  by (simp add: month_rollover_def Let_def)

lemma year_rollover_eq:
  "year_rollover L now st =
     st\<lparr> rain_yearly_in := (if y_from_time L now \<noteq> year_y st then 0 else rain_yearly_in st),
         year_y := y_from_time L now \<rparr>"
  by (simp add: year_rollover_def Let_def)

lemma week_rollover_eq:
  "week_rollover L now st =
     st\<lparr> rain_weekly_in :=
           (if day_start_ts L now - mktime L (week_start_tm (week_start_ymd st)) \<ge> 7 * 86400
            then 0 else rain_weekly_in st),
         week_start_ymd :=
           (if day_start_ts L now - mktime L (week_start_tm (week_start_ymd st)) \<ge> 7 * 86400
            then ymd_from_time L now else week_start_ymd st) \<rparr>"
  by (simp add: week_rollover_def Let_def)

lemma day_rollover_state:
  "g_state (day_rollover L now g) =
     (let st = g_state g; fires = (ymd_from_time L now \<noteq> daily_ymd st)
      in st\<lparr> rain_daily_in := (if fires then 0 else rain_daily_in st),
             daily_ymd := ymd_from_time L now,
             day_first_ts := (if fires then now else day_first_ts st),
             day_last_ts := (if fires then now else day_last_ts st),
             have_temp := (\<not> fires \<and> have_temp st),
             have_hum := (\<not> fires \<and> have_hum st),
             have_wind := (\<not> fires \<and> have_wind st),
             wind_mean_m_s := (if fires then 0 else wind_mean_m_s st),
             wind_max_gust_m_s := (if fires then 0 else wind_max_gust_m_s st),
             wind_sample_count := (if fires then 0 else wind_sample_count st) \<rparr>)"
  by (simp add: day_rollover_def Let_def)

lemma day_rollover_db:
  "g_db (day_rollover L now g) =
     (let st = g_state g
      in if ymd_from_time L now \<noteq> daily_ymd st \<and> day_first_ts st \<noteq> 0 \<and> day_last_ts st \<noteq> 0 \<and>
            day_last_ts st - day_first_ts st \<ge> MIN_COVERAGE_SEC
         then log_daily_to_db (day_start_ts L (day_first_ts st)) st (rain_daily_in st) (g_db g)
         else g_db g)"
  "state_file (day_rollover L now g) = state_file g"
  by (simp_all add: day_rollover_def Let_def)

lemma rollover_if_needed_parts:
  "g_state (rollover_if_needed L now g) =
     week_rollover L now (year_rollover L now (month_rollover L now
       (g_state (day_rollover L now (g\<lparr> g_state := adopt_keys L now (g_state g) \<rparr>)))))"
  "g_db (rollover_if_needed L now g) = g_db (day_rollover L now (g\<lparr> g_state := adopt_keys L now (g_state g) \<rparr>))"
  "state_file (rollover_if_needed L now g) = state_file g"
  by (simp_all add: rollover_if_needed_def Let_def day_rollover_db)

lemmas rollover_eqs = rollover_if_needed_parts week_rollover_eq year_rollover_eq month_rollover_eq
  day_rollover_state adopt_keys_eq

lemma rollover_if_needed_rain:
  "rain_daily_in (g_state (rollover_if_needed L now g)) =
     (if daily_ymd (g_state g) \<noteq> 0 \<and> daily_ymd (g_state g) \<noteq> ymd_from_time L now
      then 0 else rain_daily_in (g_state g))"
  "rain_monthly_in (g_state (rollover_if_needed L now g)) =
     (if month_ym (g_state g) \<noteq> 0 \<and> month_ym (g_state g) \<noteq> ym_from_time L now
      then 0 else rain_monthly_in (g_state g))"
  "rain_yearly_in (g_state (rollover_if_needed L now g)) =
     (if year_y (g_state g) \<noteq> 0 \<and> year_y (g_state g) \<noteq> y_from_time L now
      then 0 else rain_yearly_in (g_state g))"
  "rain_weekly_in (g_state (rollover_if_needed L now g)) =
     (if day_start_ts L now
           - mktime L (week_start_tm (if week_start_ymd (g_state g) = 0 then ymd_from_time L now
                                      else week_start_ymd (g_state g))) \<ge> 7 * 86400
      then 0 else rain_weekly_in (g_state g))"
  "rain_hourly_in (g_state (rollover_if_needed L now g)) = rain_hourly_in (g_state g)"
  "rain_event_in (g_state (rollover_if_needed L now g)) = rain_event_in (g_state g)"
  by (auto simp add: rollover_eqs Let_def)

lemma rollover_if_needed_extremes:
  "have_temp (g_state (rollover_if_needed L now g)) =
     (have_temp (g_state g) \<and> \<not> (daily_ymd (g_state g) \<noteq> 0 \<and> daily_ymd (g_state g) \<noteq> ymd_from_time L now))"
  "temp_high_c (g_state (rollover_if_needed L now g)) = temp_high_c (g_state g)"
  "temp_low_c (g_state (rollover_if_needed L now g)) = temp_low_c (g_state g)"
  "have_hum (g_state (rollover_if_needed L now g)) =
     (have_hum (g_state g) \<and> \<not> (daily_ymd (g_state g) \<noteq> 0 \<and> daily_ymd (g_state g) \<noteq> ymd_from_time L now))"
  "hum_high (g_state (rollover_if_needed L now g)) = hum_high (g_state g)"
  "hum_low (g_state (rollover_if_needed L now g)) = hum_low (g_state g)"
  "have_wind (g_state (rollover_if_needed L now g)) =
     (have_wind (g_state g) \<and> \<not> (daily_ymd (g_state g) \<noteq> 0 \<and> daily_ymd (g_state g) \<noteq> ymd_from_time L now))"
  "wind_mean_m_s (g_state (rollover_if_needed L now g)) =
     (if daily_ymd (g_state g) \<noteq> 0 \<and> daily_ymd (g_state g) \<noteq> ymd_from_time L now
      then 0 else wind_mean_m_s (g_state g))"
  "wind_max_gust_m_s (g_state (rollover_if_needed L now g)) =
     (if daily_ymd (g_state g) \<noteq> 0 \<and> daily_ymd (g_state g) \<noteq> ymd_from_time L now
      then 0 else wind_max_gust_m_s (g_state g))"
  "wind_sample_count (g_state (rollover_if_needed L now g)) =
     (if daily_ymd (g_state g) \<noteq> 0 \<and> daily_ymd (g_state g) \<noteq> ymd_from_time L now
      then 0 else wind_sample_count (g_state g))"
  by (auto simp add: rollover_eqs Let_def)

lemma rollover_if_needed_frame:
  "last_rain_mm (g_state (rollover_if_needed L now g)) = last_rain_mm (g_state g)"
  "deltas (g_state (rollover_if_needed L now g)) = deltas (g_state g)"
  "last_rain_ts (g_state (rollover_if_needed L now g)) = last_rain_ts (g_state g)"
  by (simp_all add: rollover_eqs Let_def)

text \<open>The loop of \<^verbatim>\<open>recompute_hourly\<close> keeps the entries inside the window and sums them.\<close>

lemma recompute_loop_eq:
  "recompute_loop now xs kept acc =
     (kept @ filter (\<lambda>x. now - ts x \<le> HOURLY_WINDOW_SEC) xs,
      foldl (\<lambda>a x. a + inches x) acc (filter (\<lambda>x. now - ts x \<le> HOURLY_WINDOW_SEC) xs))"
  by (induction xs arbitrary: kept acc) simp_all

lemma foldl_inches_sum:
  "foldl (\<lambda>a x. a + inches x) acc xs = acc + sum_list (map inches xs)"
  by (induction xs arbitrary: acc) simp_all

lemma recompute_hourly_eq:
  "recompute_hourly now st =
     st\<lparr> deltas := filter (\<lambda>x. now - ts x \<le> HOURLY_WINDOW_SEC) (deltas st),
         rain_hourly_in := sum_list (map inches (filter (\<lambda>x. now - ts x \<le> HOURLY_WINDOW_SEC) (deltas st))) \<rparr>"
  by (simp add: recompute_hourly_def recompute_loop_eq foldl_inches_sum)

lemma accumulate_rain_eq:
  "accumulate_rain now reading st =
     (let delta = reading - last_rain_mm st;
          accepted = (1 / 10000 < delta \<and> delta < 5000);
          di = inches_from_mm delta;
          window = filter (\<lambda>x. now - ts x \<le> HOURLY_WINDOW_SEC) (deltas st @ [\<lparr> ts = now, inches = di \<rparr>])
      in st\<lparr> rain_daily_in := rain_daily_in st + (if accepted then di else 0),
             rain_monthly_in := rain_monthly_in st + (if accepted then di else 0),
             rain_yearly_in := rain_yearly_in st + (if accepted then di else 0),
             rain_weekly_in := rain_weekly_in st + (if accepted then di else 0),
             deltas := (if accepted then window else deltas st),
             rain_hourly_in := (if accepted then sum_list (map inches window) else rain_hourly_in st),
             rain_event_in :=
               (if accepted
                then (if last_rain_ts st = 0 \<or> now - last_rain_ts st > EVENT_GAP_MIN * 60
                      then di else rain_event_in st + di)
                else rain_event_in st),
             last_rain_ts := (if accepted then now else last_rain_ts st) \<rparr>)"
  by (simp add: accumulate_rain_def recompute_hourly_eq Let_def)

lemma track_temperature_eq:
  "track_temperature j st =
     (case get_num_nan j ''temperature_C'' of
        None \<Rightarrow> st
      | Some tC \<Rightarrow>
          st\<lparr> temp_high_c := (if have_temp st then max (temp_high_c st) tC else tC),
              temp_low_c := (if have_temp st then min (temp_low_c st) tC else tC),
              have_temp := True \<rparr>)"
  by (simp add: track_temperature_def split: option.splits)

lemma track_humidity_eq:
  "track_humidity j st =
     (case get_num_nan j ''humidity'' of
        None \<Rightarrow> st
      | Some h \<Rightarrow>
          st\<lparr> hum_high := (if have_hum st then max (hum_high st) h else h),
              hum_low := (if have_hum st then min (hum_low st) h else h),
              have_hum := True \<rparr>)"
  by (simp add: track_humidity_def split: option.splits)

lemma track_wind_eq:
  "track_wind st =
     st\<lparr> have_wind := True,
         wind_mean_m_s :=
           (if have_wind st
            then (wind_mean_m_s st * real (wind_sample_count st) + wind_avg_m_s st)
                   / real (wind_sample_count st + 1)
            else wind_avg_m_s st),
         wind_max_gust_m_s :=
           (if have_wind st then max (wind_max_gust_m_s st) (wind_max_m_s st) else wind_max_m_s st),
         wind_sample_count := (if have_wind st then wind_sample_count st + 1 else 1) \<rparr>"
  by (simp add: track_wind_def Let_def max_def)

lemma tracking_rain_frame:
  "rain_daily_in (track_wind (track_humidity j (track_temperature j st))) = rain_daily_in st"
  "rain_monthly_in (track_wind (track_humidity j (track_temperature j st))) = rain_monthly_in st"
  "rain_yearly_in (track_wind (track_humidity j (track_temperature j st))) = rain_yearly_in st"
  "rain_weekly_in (track_wind (track_humidity j (track_temperature j st))) = rain_weekly_in st"
  "rain_hourly_in (track_wind (track_humidity j (track_temperature j st))) = rain_hourly_in st"
  "rain_event_in (track_wind (track_humidity j (track_temperature j st))) = rain_event_in st"
  "last_rain_mm (track_wind (track_humidity j (track_temperature j st))) = last_rain_mm st"
  "deltas (track_wind (track_humidity j (track_temperature j st))) = deltas st"
  "last_rain_ts (track_wind (track_humidity j (track_temperature j st))) = last_rain_ts st"
  by (simp_all add: track_wind_eq track_humidity_eq track_temperature_eq split: option.splits)

text \<open>The three ways through \<^verbatim>\<open>process_ws90_json_locked\<close> that return.\<close>

lemma process_rejected:
  assumes "jlookup j ''rain_mm'' = None \<or>
           jlookup j ''rain_mm'' = Some v \<and> get_as_double v = Some reading \<and> (reading < 0 \<or> 20000 < reading)"
  shows "process_ws90_json_locked L now j g =
           (Returned, g\<lparr> g_state := (basic_telemetry j (g_state g))\<lparr> last_update := now \<rparr> \<rparr>)"
proof -
  from assms consider "jlookup j ''rain_mm'' = None"
    | "jlookup j ''rain_mm'' = Some v" "get_as_double v = Some reading" "reading < 0 \<or> 20000 < reading"
    by auto
  then show ?thesis
  proof cases
    case 1
    then show ?thesis by (simp add: process_ws90_json_locked_def)
  next
    case 2
    then show ?thesis by (simp add: process_ws90_json_locked_def)
  qed
qed

lemma process_in_range:
  assumes "jlookup j ''rain_mm'' = Some v" and "get_as_double v = Some reading"
    and "0 \<le> reading" and "reading \<le> 20000"
  shows "process_ws90_json_locked L now j g =
     (let g1 = rollover_if_needed L now (g\<lparr> g_state := basic_telemetry j (g_state g) \<rparr>);
          st = (g_state g1)\<lparr> day_first_ts := (if day_first_ts (g_state g1) = 0 then now
                                                else day_first_ts (g_state g1)),
                             day_last_ts := now \<rparr>
      in (Returned,
          save_state (g1\<lparr> g_state :=
            (if last_rain_mm (g_state g) = 0
             then st\<lparr> last_rain_mm := reading, last_update := now \<rparr>
             else track_wind (track_humidity j (track_temperature j
                    ((accumulate_rain now reading st)\<lparr> last_rain_mm := reading, last_update := now \<rparr>)))) \<rparr>)))"
proof -
  have lr: "last_rain_mm (g_state (rollover_if_needed L now (g\<lparr> g_state := basic_telemetry j (g_state g) \<rparr>)))
      = last_rain_mm (g_state g)"
    by (simp add: rollover_if_needed_frame basic_telemetry_def)
  have "\<not> (reading < 0 \<or> 20000 < reading)"
    using assms(3,4) by simp
  then show ?thesis
    using assms(1,2) lr by (simp add: process_ws90_json_locked_def Let_def)
qed

section \<open>Rain accumulation from the delta\<close>

text \<open>
  Claim C1, as the code has it. For every sample whose rain reading is in range (the
  key \<^verbatim>\<open>rain_mm\<close> holds a number in \<open>[0, 20000]\<close>), \<^verbatim>\<open>last_rain_mm\<close> is set to the
  reading. With \<open>delta = reading - last_rain_mm\<close>, the amount \<open>delta / 25.4\<close> is added to
  the daily, monthly, yearly and weekly accumulators, as the rollover check of this
  call left them, if and only if \<open>0.0001 < delta < 5000\<close> and the stored
  \<^verbatim>\<open>last_rain_mm\<close> is not 0; otherwise these four accumulators stay as the rollover
  check left them. The stored value 0 marks the first reading, which only seeds
  \<^verbatim>\<open>last_rain_mm\<close>.
\<close>

theorem rain_delta_accumulation:
  assumes "jlookup j ''rain_mm'' = Some v" and "get_as_double v = Some reading"
    and "0 \<le> reading" and "reading \<le> 20000"
  shows
   "(let r = g_state (rollover_if_needed L now (g\<lparr> g_state := basic_telemetry j (g_state g) \<rparr>));
         s' = g_state (snd (process_ws90_json_locked L now j g));
         delta = reading - last_rain_mm (g_state g);
         added = (if last_rain_mm (g_state g) \<noteq> 0 \<and> 1 / 10000 < delta \<and> delta < 5000
                  then delta / (254 / 10) else 0)
     in rain_daily_in s' = rain_daily_in r + added \<and>
        rain_monthly_in s' = rain_monthly_in r + added \<and>
        rain_yearly_in s' = rain_yearly_in r + added \<and>
        rain_weekly_in s' = rain_weekly_in r + added \<and>
        last_rain_mm s' = reading)"
  using assms
  by (simp add: process_in_range Let_def save_state_def tracking_rain_frame accumulate_rain_eq
      inches_from_mm_def rollover_if_needed_frame basic_telemetry_def)

theorem rain_delta_accumulation_witness:
  "jlookup (ws90_sample (10127 / 100) 21) ''rain_mm'' = Some (JFloat (10127 / 100)) \<and>
   get_as_double (JFloat (10127 / 100)) = Some (10127 / 100) \<and>
   (0 :: real) \<le> 10127 / 100 \<and> (10127 / 100 :: real) \<le> 20000 \<and>
   last_rain_mm (g_state (poll utc (new_year_2027, ws90_sample 100 20)
                   (init utc new_year_2027 new_year_2027 NoFile (Some [])))) = 100 \<and>
   rain_daily_in (g_state (polls utc
       [(new_year_2027, ws90_sample 100 20), (new_year_2027 + 60, ws90_sample (10127 / 100) 21)]
       (init utc new_year_2027 new_year_2027 NoFile (Some [])))) = 5 / 100 \<and>
   last_rain_mm (g_state (polls utc
       [(new_year_2027, ws90_sample 100 20), (new_year_2027 + 60, ws90_sample (10127 / 100) 21)]
       (init utc new_year_2027 new_year_2027 NoFile (Some [])))) = 10127 / 100"
proof -
  define g1 where "g1 = poll utc (new_year_2027, ws90_sample 100 20)
                   (init utc new_year_2027 new_year_2027 NoFile (Some []))"
  define j where "j = ws90_sample (10127 / 100) 21"
  have h1: "jlookup j ''rain_mm'' = Some (JFloat (10127 / 100))"
    unfolding j_def by code_simp
  have h2: "get_as_double (JFloat (10127 / 100)) = Some (10127 / 100)"
    by (simp add: get_as_double_def)
  have l1: "last_rain_mm (g_state g1) = 100"
    unfolding g1_def by code_simp
  have r: "rain_daily_in (g_state (rollover_if_needed utc (new_year_2027 + 60)
             (g1\<lparr> g_state := basic_telemetry j (g_state g1) \<rparr>))) = 0"
    unfolding g1_def j_def by code_simp
  have p: "polls utc [(new_year_2027, ws90_sample 100 20), (new_year_2027 + 60, ws90_sample (10127 / 100) 21)]
       (init utc new_year_2027 new_year_2027 NoFile (Some []))
     = snd (process_ws90_json_locked utc (new_year_2027 + 60) j g1)"
    by (simp add: polls_def poll_def g1_def j_def)
  have "rain_daily_in (g_state (snd (process_ws90_json_locked utc (new_year_2027 + 60) j g1))) = 5 / 100
      \<and> last_rain_mm (g_state (snd (process_ws90_json_locked utc (new_year_2027 + 60) j g1))) = 10127 / 100"
    using rain_delta_accumulation [OF h1 h2, of utc "new_year_2027 + 60" g1] l1 r
    by (simp add: Let_def)
  then show ?thesis
    using h1 h2 l1 by (simp add: p g1_def j_def)
qed

text \<open>
  The claim without the condition on the stored reading fails on the first sample
  after a fresh start: the reading 10 gives a delta of 10 mm, inside the accepted
  range, and nothing is added.
\<close>

theorem rain_delta_seeding_counterexample:
  "last_rain_mm (g_state (init utc new_year_2027 new_year_2027 NoFile (Some []))) = 0 \<and>
   (1 / 10000 :: real) < 10 - 0 \<and> (10 - 0 :: real) < 5000 \<and>
   rain_daily_in (g_state (init utc new_year_2027 new_year_2027 NoFile (Some []))) = 0 \<and>
   rain_daily_in (g_state (snd (process_ws90_json_locked utc new_year_2027 (ws90_sample 10 20)
      (init utc new_year_2027 new_year_2027 NoFile (Some []))))) = 0 \<and>
   rain_yearly_in (g_state (snd (process_ws90_json_locked utc new_year_2027 (ws90_sample 10 20)
      (init utc new_year_2027 new_year_2027 NoFile (Some []))))) = 0 \<and>
   last_rain_mm (g_state (snd (process_ws90_json_locked utc new_year_2027 (ws90_sample 10 20)
      (init utc new_year_2027 new_year_2027 NoFile (Some []))))) = 10"
  by code_simp

section \<open>The hourly window\<close>

text \<open>
  Right after a delta was accepted the window is as the specification has it: every
  stored delta is at most 3600 seconds old and \<^verbatim>\<open>rain_hourly_in\<close> is their sum.
\<close>

lemma hourly_window_after_accepted_delta:
  assumes "1 / 10000 < reading - last_rain_mm st" and "reading - last_rain_mm st < 5000"
  shows "(\<forall>x \<in> set (deltas (accumulate_rain now reading st)). now - ts x \<le> 3600) \<and>
         rain_hourly_in (accumulate_rain now reading st)
           = sum_list (map inches (deltas (accumulate_rain now reading st)))"
  using assms by (simp add: accumulate_rain_eq Let_def HOURLY_WINDOW_SEC_def)

text \<open>
  Claim C3 asks for this at every point in time. The code recomputes the window only
  inside the branch that accepts a delta, so the window is not maintained while no rain
  falls. On the run \<open>dry_hour\<close> the last sample comes 4000 seconds after the only
  delta and brings no rain: the delta, now older than 3600 seconds, is still stored
  and \<^verbatim>\<open>rain_hourly_in\<close> still reports its 0.05 in.
\<close>

theorem hourly_window_stale_after_dry_hour:
  "last_update (g_state dry_hour) = new_year_2027 + 4060 \<and>
   deltas (g_state dry_hour) = [\<lparr> ts = new_year_2027 + 60, inches = 5 / 100 \<rparr>] \<and>
   (new_year_2027 + 4060) - (new_year_2027 + 60) > (3600 :: int) \<and>
   rain_hourly_in (g_state dry_hour) = 5 / 100 \<and>
   sum_list (map inches (filter (\<lambda>x. (new_year_2027 + 4060) - ts x \<le> 3600) (deltas (g_state dry_hour)))) = 0"
  by code_simp

section \<open>The daily summary written on a day rollover\<close>





section \<open>Independence of the four rollover checks\<close>

lemma probe_calendar:
  "ymd_from_time utc new_year_2027 = 20270101"
  "ym_from_time utc new_year_2027 = 202701"
  "y_from_time utc new_year_2027 = 2027"
  "day_start_ts utc new_year_2027 = 1798761600"
  "mktime utc (week_start_tm 20261225) = 1798156800"
  "mktime utc (week_start_tm 20270101) = 1798761600"
  by code_simp+

lemma rollover_probe_fields:
  "rain_daily_in (g_state (rollover_probe a b c e)) = 1"
  "rain_monthly_in (g_state (rollover_probe a b c e)) = 2"
  "rain_yearly_in (g_state (rollover_probe a b c e)) = 3"
  "rain_weekly_in (g_state (rollover_probe a b c e)) = 4"
  "rain_hourly_in (g_state (rollover_probe a b c e)) = 5"
  "rain_event_in (g_state (rollover_probe a b c e)) = 6"
  "daily_ymd (g_state (rollover_probe a b c e)) = (if a then 20261231 else 20270101)"
  "month_ym (g_state (rollover_probe a b c e)) = (if b then 202612 else 202701)"
  "year_y (g_state (rollover_probe a b c e)) = (if c then 2026 else 2027)"
  "week_start_ymd (g_state (rollover_probe a b c e)) = (if e then 20261225 else 20270101)"
  by (simp_all add: rollover_probe_def)

text \<open>
  Claim C7. Each of the four checks of \<^verbatim>\<open>rollover_if_needed\<close> zeroes the rain
  accumulator of its own horizon, when it fires, and leaves the five others as they
  are: the day check the daily one, the month check the monthly one, the year check
  the yearly one, the week check the weekly one; hourly and event totals are never
  touched. In the whole function each accumulator is zeroed exactly when the check of
  its own key fires. Any subset of the four checks can fire in one call: on the state
  \<open>rollover_probe day month year week\<close> exactly the chosen ones do.
\<close>

theorem rollover_checks_independent:
  "(let d = ymd_from_time L now; m = ym_from_time L now; y = y_from_time L now;
        g1 = day_rollover L now g
    in rain_daily_in (g_state g1) = (if daily_ymd (g_state g) \<noteq> d then 0 else rain_daily_in (g_state g)) \<and>
       rain_monthly_in (g_state g1) = rain_monthly_in (g_state g) \<and>
       rain_yearly_in (g_state g1) = rain_yearly_in (g_state g) \<and>
       rain_weekly_in (g_state g1) = rain_weekly_in (g_state g) \<and>
       rain_hourly_in (g_state g1) = rain_hourly_in (g_state g) \<and>
       rain_event_in (g_state g1) = rain_event_in (g_state g) \<and>
       rain_monthly_in (month_rollover L now st) = (if month_ym st \<noteq> m then 0 else rain_monthly_in st) \<and>
       rain_daily_in (month_rollover L now st) = rain_daily_in st \<and>
       rain_yearly_in (month_rollover L now st) = rain_yearly_in st \<and>
       rain_weekly_in (month_rollover L now st) = rain_weekly_in st \<and>
       rain_hourly_in (month_rollover L now st) = rain_hourly_in st \<and>
       rain_event_in (month_rollover L now st) = rain_event_in st \<and>
       rain_yearly_in (year_rollover L now st) = (if year_y st \<noteq> y then 0 else rain_yearly_in st) \<and>
       rain_daily_in (year_rollover L now st) = rain_daily_in st \<and>
       rain_monthly_in (year_rollover L now st) = rain_monthly_in st \<and>
       rain_weekly_in (year_rollover L now st) = rain_weekly_in st \<and>
       rain_hourly_in (year_rollover L now st) = rain_hourly_in st \<and>
       rain_event_in (year_rollover L now st) = rain_event_in st \<and>
       rain_weekly_in (week_rollover L now st) =
         (if day_start_ts L now - mktime L (week_start_tm (week_start_ymd st)) \<ge> 7 * 86400
          then 0 else rain_weekly_in st) \<and>
       rain_daily_in (week_rollover L now st) = rain_daily_in st \<and>
       rain_monthly_in (week_rollover L now st) = rain_monthly_in st \<and>
       rain_yearly_in (week_rollover L now st) = rain_yearly_in st \<and>
       rain_hourly_in (week_rollover L now st) = rain_hourly_in st \<and>
       rain_event_in (week_rollover L now st) = rain_event_in st)
   \<and>
   (let d = ymd_from_time L now; m = ym_from_time L now; y = y_from_time L now;
        s = g_state g; s' = g_state (rollover_if_needed L now g)
    in rain_daily_in s' = (if daily_ymd s \<noteq> 0 \<and> daily_ymd s \<noteq> d then 0 else rain_daily_in s) \<and>
       rain_monthly_in s' = (if month_ym s \<noteq> 0 \<and> month_ym s \<noteq> m then 0 else rain_monthly_in s) \<and>
       rain_yearly_in s' = (if year_y s \<noteq> 0 \<and> year_y s \<noteq> y then 0 else rain_yearly_in s) \<and>
       rain_weekly_in s' =
         (if day_start_ts L now
               - mktime L (week_start_tm (if week_start_ymd s = 0 then d else week_start_ymd s)) \<ge> 7 * 86400
          then 0 else rain_weekly_in s) \<and>
       rain_hourly_in s' = rain_hourly_in s \<and> rain_event_in s' = rain_event_in s)
   \<and>
   (let s' = g_state (rollover_if_needed utc new_year_2027 (rollover_probe day month year week))
    in rain_daily_in s' = (if day then 0 else 1) \<and>
       rain_monthly_in s' = (if month then 0 else 2) \<and>
       rain_yearly_in s' = (if year then 0 else 3) \<and>
       rain_weekly_in s' = (if week then 0 else 4) \<and>
       rain_hourly_in s' = 5 \<and> rain_event_in s' = 6)"
  by (simp add: Let_def day_rollover_state month_rollover_eq year_rollover_eq week_rollover_eq
      rollover_if_needed_rain rollover_probe_fields probe_calendar)

theorem rollover_checks_independent_witness:
  "rain_daily_in (g_state (rollover_if_needed utc new_year_2027 (rollover_probe True True True True))) = 0 \<and>
   rain_monthly_in (g_state (rollover_if_needed utc new_year_2027 (rollover_probe True True True True))) = 0 \<and>
   rain_yearly_in (g_state (rollover_if_needed utc new_year_2027 (rollover_probe True True True True))) = 0 \<and>
   rain_weekly_in (g_state (rollover_if_needed utc new_year_2027 (rollover_probe True True True True))) = 0 \<and>
   rain_daily_in (g_state (rollover_if_needed utc new_year_2027 (rollover_probe False True False False))) = 1 \<and>
   rain_monthly_in (g_state (rollover_if_needed utc new_year_2027 (rollover_probe False True False False))) = 0 \<and>
   rain_yearly_in (g_state (rollover_if_needed utc new_year_2027 (rollover_probe False True False False))) = 3 \<and>
   rain_weekly_in (g_state (rollover_if_needed utc new_year_2027 (rollover_probe False True False False))) = 4 \<and>
   rain_hourly_in (g_state (rollover_if_needed utc new_year_2027 (rollover_probe False True False False))) = 5 \<and>
   rain_event_in (g_state (rollover_if_needed utc new_year_2027 (rollover_probe False True False False))) = 6"
  using rollover_checks_independent [of utc new_year_2027 "rollover_probe True True True True"
          "g_state (rollover_probe True True True True)" True True True True]
        rollover_checks_independent [of utc new_year_2027 "rollover_probe True True True True"
          "g_state (rollover_probe True True True True)" False True False False]
  by (simp add: Let_def)


section \<open>The lifetime rain total\<close>

text \<open>
  Claim C8. The lifetime rain total reported in the current snapshot (the member
  \<^verbatim>\<open>total_in\<close> of the object \<^verbatim>\<open>rain\<close>) is \<^verbatim>\<open>historical_total_in\<close> plus the larger of 0
  and the current yearly accumulator minus \<^verbatim>\<open>historical_yearly_in\<close>. It is
  \<^verbatim>\<open>historical_total_in\<close> itself when the yearly total does not exceed the historical
  yearly baseline, and only then (the "only then" is a fact of exact arithmetic: a
  sum of doubles can absorb a small excess).
\<close>

theorem lifetime_total_in:
  "map_of (build_current_json_rain st) ''total_in'' =
     Some (JFloat (historical_total_in st + max 0 (rain_yearly_in st - historical_yearly_in st)))
   \<and> (rain_yearly_in st \<le> historical_yearly_in st \<longrightarrow>
        map_of (build_current_json_rain st) ''total_in'' = Some (JFloat (historical_total_in st)))
   \<and> (map_of (build_current_json_rain st) ''total_in'' = Some (JFloat (historical_total_in st)) \<longrightarrow>
        rain_yearly_in st \<le> historical_yearly_in st)"
  by (simp add: build_current_json_rain_def Let_def max_def)

theorem lifetime_total_in_witness:
  "rain_yearly_in WeatherStateV2_init \<le> historical_yearly_in WeatherStateV2_init
   \<and> map_of (build_current_json_rain WeatherStateV2_init) ''total_in'' = Some (JFloat (6277 / 100))
   \<and> map_of (build_current_json_rain (WeatherStateV2_init\<lparr> rain_yearly_in := 70 \<rparr>)) ''total_in''
        = Some (JFloat 70)"
  using lifetime_total_in [of WeatherStateV2_init]
        lifetime_total_in [of "WeatherStateV2_init\<lparr> rain_yearly_in := 70 \<rparr>"]
  by (simp add: WeatherStateV2_init_def HISTORICAL_TOTAL_IN_def HISTORICAL_YEARLY_IN_def)

section \<open>Samples without a usable rain reading, and the seeding sample\<close>

text \<open>
  Claim C10. When the payload has no \<^verbatim>\<open>rain_mm\<close>, or its \<^verbatim>\<open>rain_mm\<close> is a number
  outside \<open>[0, 20000]\<close>, the call returns with the state changed in the fifteen
  telemetry fields and \<^verbatim>\<open>last_update\<close> only: every other field (calendar keys and
  accumulators, so no rollover ran; \<^verbatim>\<open>day_first_ts\<close> and \<^verbatim>\<open>day_last_ts\<close>; the
  temperature, humidity and wind extremes) is as before, and neither the database
  nor the snapshot file is written. When the rain reading is in range and the stored
  \<^verbatim>\<open>last_rain_mm\<close> is 0 (the seeding sample), the extremes after the call are those the
  rollover check leaves from the old state: the temperature, humidity and wind of the
  sample are not in them.
\<close>

theorem rejected_sample_frame:
  "((jlookup j ''rain_mm'' = None \<or>
     jlookup j ''rain_mm'' = Some v \<and> get_as_double v = Some reading \<and> (reading < 0 \<or> 20000 < reading))
    \<longrightarrow>
      fst (process_ws90_json_locked L now j g) = Returned \<and>
      g_db (snd (process_ws90_json_locked L now j g)) = g_db g \<and>
      state_file (snd (process_ws90_json_locked L now j g)) = state_file g \<and>
      g_state (snd (process_ws90_json_locked L now j g)) =
        (g_state g)
          \<lparr> battery_mV := get_num j ''battery_mV'' 0,
            battery_ok := get_num j ''battery_ok'' 0,
            station_id := get_int j ''id'' 0,
            model := get_str j ''model'' [],
            firmware := get_int j ''firmware'' 0,
            humidity := get_num j ''humidity'' 0,
            temperature_C := get_num j ''temperature_C'' 0,
            wind_dir_deg := get_num j ''wind_dir_deg'' 0,
            wind_avg_m_s := get_num j ''wind_avg_m_s'' 0,
            wind_max_m_s := get_num j ''wind_max_m_s'' 0,
            light_lux := get_num j ''light_lux'' 0,
            uvi := get_num j ''uvi'' 0,
            rain_mm := get_num j ''rain_mm'' 0,
            supercap_V := get_num j ''supercap_V'' 0,
            last_time_iso := get_str j ''time'' [],
            last_update := now \<rparr>)
   \<and>
   (jlookup j ''rain_mm'' = Some v \<and> get_as_double v = Some reading \<and> 0 \<le> reading \<and> reading \<le> 20000 \<and>
    last_rain_mm (g_state g) = 0
    \<longrightarrow>
      (let r = g_state (rollover_if_needed L now g);
           s' = g_state (snd (process_ws90_json_locked L now j g))
       in have_temp s' = have_temp r \<and> temp_high_c s' = temp_high_c r \<and> temp_low_c s' = temp_low_c r \<and>
          have_hum s' = have_hum r \<and> hum_high s' = hum_high r \<and> hum_low s' = hum_low r \<and>
          have_wind s' = have_wind r \<and> wind_mean_m_s s' = wind_mean_m_s r \<and>
          wind_max_gust_m_s s' = wind_max_gust_m_s r \<and> wind_sample_count s' = wind_sample_count r \<and>
          (have_temp s' \<longrightarrow> have_temp (g_state g)) \<and>
          (have_hum s' \<longrightarrow> have_hum (g_state g)) \<and>
          (have_wind s' \<longrightarrow> have_wind (g_state g)) \<and>
          last_rain_mm s' = reading))"
proof (intro conjI impI)
  assume a: "jlookup j ''rain_mm'' = None \<or>
     jlookup j ''rain_mm'' = Some v \<and> get_as_double v = Some reading \<and> (reading < 0 \<or> 20000 < reading)"
  note p = process_rejected [OF a, of L now g]
  show "fst (process_ws90_json_locked L now j g) = Returned" by (simp add: p)
  show "g_db (snd (process_ws90_json_locked L now j g)) = g_db g" by (simp add: p)
  show "state_file (snd (process_ws90_json_locked L now j g)) = state_file g" by (simp add: p)
  show "g_state (snd (process_ws90_json_locked L now j g)) =
        (g_state g)
          \<lparr> battery_mV := get_num j ''battery_mV'' 0,
            battery_ok := get_num j ''battery_ok'' 0,
            station_id := get_int j ''id'' 0,
            model := get_str j ''model'' [],
            firmware := get_int j ''firmware'' 0,
            humidity := get_num j ''humidity'' 0,
            temperature_C := get_num j ''temperature_C'' 0,
            wind_dir_deg := get_num j ''wind_dir_deg'' 0,
            wind_avg_m_s := get_num j ''wind_avg_m_s'' 0,
            wind_max_m_s := get_num j ''wind_max_m_s'' 0,
            light_lux := get_num j ''light_lux'' 0,
            uvi := get_num j ''uvi'' 0,
            rain_mm := get_num j ''rain_mm'' 0,
            supercap_V := get_num j ''supercap_V'' 0,
            last_time_iso := get_str j ''time'' [],
            last_update := now \<rparr>"
    by (simp add: p basic_telemetry_def)
next
  assume b: "jlookup j ''rain_mm'' = Some v \<and> get_as_double v = Some reading \<and> 0 \<le> reading \<and>
    reading \<le> 20000 \<and> last_rain_mm (g_state g) = 0"
  then have p: "jlookup j ''rain_mm'' = Some v" "get_as_double v = Some reading" "0 \<le> reading"
    "reading \<le> 20000" and z: "last_rain_mm (g_state g) = 0"
    by simp_all
  show "(let r = g_state (rollover_if_needed L now g);
           s' = g_state (snd (process_ws90_json_locked L now j g))
       in have_temp s' = have_temp r \<and> temp_high_c s' = temp_high_c r \<and> temp_low_c s' = temp_low_c r \<and>
          have_hum s' = have_hum r \<and> hum_high s' = hum_high r \<and> hum_low s' = hum_low r \<and>
          have_wind s' = have_wind r \<and> wind_mean_m_s s' = wind_mean_m_s r \<and>
          wind_max_gust_m_s s' = wind_max_gust_m_s r \<and> wind_sample_count s' = wind_sample_count r \<and>
          (have_temp s' \<longrightarrow> have_temp (g_state g)) \<and>
          (have_hum s' \<longrightarrow> have_hum (g_state g)) \<and>
          (have_wind s' \<longrightarrow> have_wind (g_state g)) \<and>
          last_rain_mm s' = reading)"
    by (simp add: process_in_range [OF p] z Let_def save_state_def rollover_if_needed_extremes
        basic_telemetry_def)
qed

lemma rejected_sample_facts:
  "jlookup sample_without_rain ''rain_mm'' = None"
  "jlookup (ws90_sample 25000 35) ''rain_mm'' = Some (JFloat 25000)"
  "jlookup (ws90_sample 100 35) ''rain_mm'' = Some (JFloat 100)"
  "get_num sample_without_rain ''temperature_C'' 0 = 35"
  "have_temp (g_state covered_day)"
  "temp_high_c (g_state covered_day) = 25"
  "day_last_ts (g_state covered_day) = 1798718400"
  "daily_ymd (g_state covered_day) = 20261231"
  "last_rain_mm (g_state (init utc new_year_2027 new_year_2027 NoFile None)) = 0"
  "\<not> have_temp (g_state (rollover_if_needed utc new_year_2027 (init utc new_year_2027 new_year_2027 NoFile None)))"
  by code_simp+

theorem rejected_sample_frame_witness:
  "jlookup sample_without_rain ''rain_mm'' = None \<and>
   temp_high_c (g_state (snd (process_ws90_json_locked utc new_year_2027 sample_without_rain covered_day))) = 25 \<and>
   temperature_C (g_state (snd (process_ws90_json_locked utc new_year_2027 sample_without_rain covered_day))) = 35 \<and>
   daily_ymd (g_state (snd (process_ws90_json_locked utc new_year_2027 sample_without_rain covered_day))) = 20261231 \<and>
   day_last_ts (g_state (snd (process_ws90_json_locked utc new_year_2027 sample_without_rain covered_day))) = 1798718400 \<and>
   last_update (g_state (snd (process_ws90_json_locked utc new_year_2027 sample_without_rain covered_day))) = new_year_2027 \<and>
   jlookup (ws90_sample 25000 35) ''rain_mm'' = Some (JFloat 25000) \<and>
   get_as_double (JFloat 25000) = Some 25000 \<and> (20000 :: real) < 25000 \<and>
   temp_high_c (g_state (snd (process_ws90_json_locked utc new_year_2027 (ws90_sample 25000 35) covered_day))) = 25 \<and>
   state_file (snd (process_ws90_json_locked utc new_year_2027 (ws90_sample 25000 35) covered_day))
     = state_file covered_day \<and>
   jlookup (ws90_sample 100 35) ''rain_mm'' = Some (JFloat 100) \<and>
   get_as_double (JFloat 100) = Some 100 \<and> (0 :: real) \<le> 100 \<and> (100 :: real) \<le> 20000 \<and>
   last_rain_mm (g_state (init utc new_year_2027 new_year_2027 NoFile None)) = 0 \<and>
   \<not> have_temp (g_state (snd (process_ws90_json_locked utc new_year_2027 (ws90_sample 100 35)
                    (init utc new_year_2027 new_year_2027 NoFile None)))) \<and>
   last_rain_mm (g_state (snd (process_ws90_json_locked utc new_year_2027 (ws90_sample 100 35)
                    (init utc new_year_2027 new_year_2027 NoFile None)))) = 100"
  using rejected_sample_frame [of sample_without_rain "JFloat 0" 0 utc new_year_2027 covered_day]
        rejected_sample_frame [of "ws90_sample 25000 35" "JFloat 25000" 25000 utc new_year_2027 covered_day]
        rejected_sample_frame [of "ws90_sample 100 35" "JFloat 100" 100 utc new_year_2027
                                  "init utc new_year_2027 new_year_2027 NoFile None"]
  by (simp add: rejected_sample_facts get_as_double_def Let_def)

section \<open>Query parameters\<close>

lemma get_query_int_ci_absent:
  "\<not> has_param args name \<Longrightarrow> get_query_int_ci args name dflt lo hi = dflt"
  by (simp add: has_param_def get_query_int_ci_def split: option.splits)

lemma get_query_int_ci_unparseable:
  "get_query_value_ci args name = Some val \<Longrightarrow> strtol val = None \<Longrightarrow>
   get_query_int_ci args name dflt lo hi = dflt"
  by (simp add: get_query_int_ci_def)

lemma get_query_int_ci_parsed:
  "get_query_value_ci args name = Some val \<Longrightarrow> val \<noteq> [] \<Longrightarrow> strtol val = Some x \<Longrightarrow> lo \<le> hi \<Longrightarrow>
   get_query_int_ci args name dflt lo hi = min hi (max lo x)"
  by (simp add: get_query_int_ci_def Let_def min_def max_def)

lemma get_query_int_ci_bounds:
  "lo \<le> dflt \<Longrightarrow> dflt \<le> hi \<Longrightarrow>
   lo \<le> get_query_int_ci args name dflt lo hi \<and> get_query_int_ci args name dflt lo hi \<le> hi"
  by (simp add: get_query_int_ci_def Let_def split: option.splits)

lemma route_params_cases:
  "route_params args =
     (if has_param args ''limit'' \<or> has_param args ''offset''
      then (get_query_int_ci args ''days'' 0 0 3650,
            get_query_int_ci args ''limit'' 100 1 365,
            get_query_int_ci args ''offset'' 0 0 1000000)
      else if has_param args ''days'' then (get_query_int_ci args ''days'' 0 0 3650, - 1, - 1)
      else (- 1, - 1, - 1))"
  by (simp add: route_params_def Let_def DEFAULT_LIMIT_def DEFAULT_OFFSET_def MAX_LIMIT_def)

text \<open>
  Claim C9. The parameters a history request passes on are clamped and defaulted
  wherever they are parsed: in the paged mode \<open>days\<close> is in \<open>[0, 3650]\<close>, \<open>limit\<close> in
  \<open>[1, 365]\<close> and \<open>offset\<close> in \<open>[0, 1000000]\<close>, with 0, 100 and 0 for a parameter that is
  absent; in the time-only mode \<open>days\<close> is in \<open>[0, 3650]\<close>. A value that does not parse
  gives the default, a value that parses is moved into the interval, and a \<^verbatim>\<open>GET\<close> of a
  history endpoint is answered with status 200 and the result of the history function
  on these parameters, whatever the query string holds.
\<close>

theorem query_parameters_clamped:
  "(case route_params args of
      (days, limit, offset) \<Rightarrow>
        if has_param args ''limit'' \<or> has_param args ''offset''
        then 0 \<le> days \<and> days \<le> 3650 \<and> 1 \<le> limit \<and> limit \<le> 365 \<and> 0 \<le> offset \<and> offset \<le> 1000000 \<and>
             (\<not> has_param args ''days'' \<longrightarrow> days = 0) \<and>
             (\<not> has_param args ''limit'' \<longrightarrow> limit = 100) \<and>
             (\<not> has_param args ''offset'' \<longrightarrow> offset = 0)
        else if has_param args ''days''
        then 0 \<le> days \<and> days \<le> 3650 \<and> limit = - 1 \<and> offset = - 1
        else days = - 1 \<and> limit = - 1 \<and> offset = - 1)
   \<and> (get_query_value_ci args name = Some val \<and> strtol val = None \<longrightarrow>
        get_query_int_ci args name dflt lo hi = dflt)
   \<and> (get_query_value_ci args name = Some val \<and> val \<noteq> [] \<and> strtol val = Some x \<and> lo \<le> hi \<longrightarrow>
        get_query_int_ci args name dflt lo hi = min hi (max lo x))
   \<and> (req_method req = ''GET'' \<longrightarrow>
        (req_url req = ''/api/v2/history/temperature'' \<longrightarrow>
           route req = (200, case route_params (req_args req) of (d, l, off) \<Rightarrow> History_temperature d l off)) \<and>
        (req_url req = ''/api/v2/history/humidity'' \<longrightarrow>
           route req = (200, case route_params (req_args req) of (d, l, off) \<Rightarrow> History_humidity d l off)) \<and>
        (req_url req = ''/api/v2/history/rain'' \<longrightarrow>
           route req = (200, case route_params (req_args req) of (d, l, off) \<Rightarrow> History_rain d l off)))"
proof (intro conjI)
  show "(case route_params args of
      (days, limit, offset) \<Rightarrow>
        if has_param args ''limit'' \<or> has_param args ''offset''
        then 0 \<le> days \<and> days \<le> 3650 \<and> 1 \<le> limit \<and> limit \<le> 365 \<and> 0 \<le> offset \<and> offset \<le> 1000000 \<and>
             (\<not> has_param args ''days'' \<longrightarrow> days = 0) \<and>
             (\<not> has_param args ''limit'' \<longrightarrow> limit = 100) \<and>
             (\<not> has_param args ''offset'' \<longrightarrow> offset = 0)
        else if has_param args ''days''
        then 0 \<le> days \<and> days \<le> 3650 \<and> limit = - 1 \<and> offset = - 1
        else days = - 1 \<and> limit = - 1 \<and> offset = - 1)"
    using get_query_int_ci_bounds [of 0 0 3650 args "''days''"]
          get_query_int_ci_bounds [of 1 100 365 args "''limit''"]
          get_query_int_ci_bounds [of 0 0 1000000 args "''offset''"]
    by (simp add: route_params_cases get_query_int_ci_absent)
  show "get_query_value_ci args name = Some val \<and> strtol val = None \<longrightarrow>
        get_query_int_ci args name dflt lo hi = dflt"
    by (simp add: get_query_int_ci_unparseable)
  show "get_query_value_ci args name = Some val \<and> val \<noteq> [] \<and> strtol val = Some x \<and> lo \<le> hi \<longrightarrow>
        get_query_int_ci args name dflt lo hi = min hi (max lo x)"
    by (simp add: get_query_int_ci_parsed)
  show "req_method req = ''GET'' \<longrightarrow>
        (req_url req = ''/api/v2/history/temperature'' \<longrightarrow>
           route req = (200, case route_params (req_args req) of (d, l, off) \<Rightarrow> History_temperature d l off)) \<and>
        (req_url req = ''/api/v2/history/humidity'' \<longrightarrow>
           route req = (200, case route_params (req_args req) of (d, l, off) \<Rightarrow> History_humidity d l off)) \<and>
        (req_url req = ''/api/v2/history/rain'' \<longrightarrow>
           route req = (200, case route_params (req_args req) of (d, l, off) \<Rightarrow> History_rain d l off))"
    by (simp add: route_def split: prod.splits)
qed

lemma query_parameter_facts:
  "has_param messy_query ''days''"
  "has_param messy_query ''limit''"
  "has_param messy_query ''offset''"
  "get_query_value_ci messy_query ''days'' = Some ''abc''"
  "strtol ''abc'' = None"
  "get_query_value_ci messy_query ''limit'' = Some ''5000''"
  "strtol ''5000'' = Some 5000"
  "route_params messy_query = (0, 365, 0)"
  "req_method messy_request = ''GET''"
  "req_url messy_request = ''/api/v2/history/rain''"
  "req_args messy_request = messy_query"
  by code_simp+

theorem query_parameters_clamped_witness:
  "has_param messy_query ''limit'' \<and>
   route_params messy_query = (0, 365, 0) \<and>
   get_query_value_ci messy_query ''days'' = Some ''abc'' \<and>
   strtol ''abc'' = None \<and>
   get_query_int_ci messy_query ''days'' 0 0 3650 = 0 \<and>
   get_query_value_ci messy_query ''limit'' = Some ''5000'' \<and>
   strtol ''5000'' = Some 5000 \<and>
   get_query_int_ci messy_query ''limit'' 100 1 365 = 365 \<and>
   req_method messy_request = ''GET'' \<and>
   req_url messy_request = ''/api/v2/history/rain'' \<and>
   route messy_request = (200, History_rain 0 365 0)"
  using query_parameters_clamped [of messy_query "''days''" "''abc''" 0 0 3650 0 messy_request]
        query_parameters_clamped [of messy_query "''limit''" "''5000''" 100 1 365 5000 messy_request]
  by (simp add: query_parameter_facts)

section \<open>History query modes\<close>

lemma history_rows_simple:
  "days < 0 \<Longrightarrow> limit < 0 \<Longrightarrow> offset < 0 \<Longrightarrow>
   history_rows now days limit offset tbl = sort_key day_ts tbl"
  by (simp add: history_rows_def history_statement_def run_select_def)

lemma history_rows_time_only:
  "0 \<le> days \<Longrightarrow> limit < 0 \<Longrightarrow> offset < 0 \<Longrightarrow>
   history_rows now days limit offset tbl =
     (if days = 0 then sort_key day_ts tbl
      else filter (\<lambda>r. day_ts r \<ge> now - days * 86400) (sort_key day_ts tbl))"
  by (simp add: history_rows_def history_statement_def run_select_def)

lemma history_rows_paged:
  "0 \<le> limit \<Longrightarrow>
   history_rows now days limit offset tbl =
     take (nat limit) (drop (nat offset)
       (if days > 0 then filter (\<lambda>r. day_ts r \<ge> now - days * 86400) (sort_key day_ts tbl)
        else sort_key day_ts tbl))"
  by (simp add: history_rows_def history_statement_def run_select_def Let_def)

lemma run_select_sorted:
  "sorted (map day_ts (run_select q tbl))"
proof -
  have "sorted (map day_ts (sort_key day_ts tbl))"
    by simp
  then have s: "sorted_wrt (\<lambda>x y. day_ts x \<le> day_ts y) (sort_key day_ts tbl)"
    by (simp only: sorted_map)
  have "sorted_wrt (\<lambda>x y. day_ts x \<le> day_ts y) (run_select q tbl)"
    using s
    by (simp add: run_select_def Let_def sorted_wrt_filter sorted_wrt_take sorted_wrt_drop
        split: option.splits prod.splits)
  then show ?thesis
    by (simp only: sorted_map)
qed

text \<open>
  Claim C4. Which of \<open>days\<close>, \<open>limit\<close>, \<open>offset\<close> are present decides the mode of a
  history query, and nothing else does. With none of them all rows are returned in
  ascending order of the day. With \<open>days\<close> alone the rows with
  \<open>day \<ge> now - days * 86400\<close> are returned, in ascending order and without a cap, and
  all rows when \<open>days\<close> is 0. As soon as \<open>limit\<close> or \<open>offset\<close> is present the query is
  paged: the time filter is applied only if \<open>days > 0\<close>, and \<open>OFFSET\<close> and \<open>LIMIT\<close> are
  applied in every case.
\<close>

theorem history_query_mode:
  "(case route_params args of
      (days, limit, offset) \<Rightarrow>
        (let all_rows = sort_key day_ts tbl;
             recent = filter (\<lambda>r. day_ts r \<ge> now - days * 86400) all_rows
         in history_rows now days limit offset tbl =
              (if has_param args ''limit'' \<or> has_param args ''offset''
               then take (nat limit) (drop (nat offset) (if days > 0 then recent else all_rows))
               else if has_param args ''days''
               then (if days = 0 then all_rows else recent)
               else all_rows) \<and>
            sorted (map day_ts (history_rows now days limit offset tbl))))"
proof -
  have d: "0 \<le> get_query_int_ci args ''days'' 0 0 3650"
    using get_query_int_ci_bounds [of 0 0 3650 args "''days''"] by simp
  have l: "0 \<le> get_query_int_ci args ''limit'' 100 1 365"
    using get_query_int_ci_bounds [of 1 100 365 args "''limit''"] by simp
  have s: "sorted (map day_ts (history_rows now x y z tbl))" for x y z
    unfolding history_rows_def by (rule run_select_sorted)
  have m: "history_rows now days limit offset tbl =
              (if has_param args ''limit'' \<or> has_param args ''offset''
               then take (nat limit) (drop (nat offset)
                      (if days > 0 then filter (\<lambda>r. day_ts r \<ge> now - days * 86400) (sort_key day_ts tbl)
                       else sort_key day_ts tbl))
               else if has_param args ''days''
               then (if days = 0 then sort_key day_ts tbl
                     else filter (\<lambda>r. day_ts r \<ge> now - days * 86400) (sort_key day_ts tbl))
               else sort_key day_ts tbl)"
    if "route_params args = (days, limit, offset)" for days limit offset
    using that d l
    by (auto simp add: route_params_cases history_rows_simple history_rows_time_only
        history_rows_paged split: if_splits)
  show ?thesis
    using m s by (simp add: Let_def split: prod.splits)
qed

lemma history_query_facts:
  "route_params paged_query = (7, 1, 0)"
  "has_param paged_query ''limit''"
  "take (nat 1) (drop (nat 0)
     (if (0 :: int) < 7
      then filter (\<lambda>r. new_year_2027 - 7 * 86400 \<le> day_ts r) (sort_key day_ts two_days)
      else sort_key day_ts two_days)) = [wet_day]"
  "route_params days_query = (7, - 1, - 1)"
  "has_param days_query ''days''"
  "has_param days_query ''limit'' = False"
  "has_param days_query ''offset'' = False"
  "(if (7 :: int) = 0 then sort_key day_ts two_days
    else filter (\<lambda>r. new_year_2027 - 7 * 86400 \<le> day_ts r) (sort_key day_ts two_days)) = [wet_day]"
  "route_params [] = (- 1, - 1, - 1)"
  "has_param [] ''days'' = False" "has_param [] ''limit'' = False" "has_param [] ''offset'' = False"
  "sort_key day_ts two_days = [warm_day, wet_day]"
  by code_simp+

theorem history_query_mode_witness:
  "history_rows new_year_2027 7 1 0 two_days = [wet_day] \<and>
   history_rows new_year_2027 7 (- 1) (- 1) two_days = [wet_day] \<and>
   history_rows new_year_2027 (- 1) (- 1) (- 1) two_days = [warm_day, wet_day]"
proof -
  have "history_rows new_year_2027 7 1 0 two_days = [wet_day]"
    using history_query_mode [where args = paged_query and now = new_year_2027 and tbl = two_days]
    by (simp only: history_query_facts(1-3) Let_def prod.case if_True simp_thms)
  moreover have "history_rows new_year_2027 7 (- 1) (- 1) two_days = [wet_day]"
    using history_query_mode [where args = days_query and now = new_year_2027 and tbl = two_days]
    by (simp only: history_query_facts(4-8) Let_def prod.case if_True if_False simp_thms)
  moreover have "history_rows new_year_2027 (- 1) (- 1) (- 1) two_days = [warm_day, wet_day]"
    using history_query_mode [where args = "[]" and now = new_year_2027 and tbl = two_days]
    by (simp only: history_query_facts(9-13) Let_def prod.case if_True if_False simp_thms)
  ultimately show ?thesis by simp
qed

section \<open>NULL columns in the history\<close>

lemma run_select_subset:
  "set (run_select q tbl) \<subseteq> set tbl"
proof -
  have t: "set (take n xs) \<subseteq> set xs" for n and xs :: "daily_row list"
    by (rule set_take_subset)
  have d: "set (drop n xs) \<subseteq> set xs" for n and xs :: "daily_row list"
    by (rule set_drop_subset)
  show ?thesis
    using t d
    by (auto simp add: run_select_def Let_def split: option.splits prod.splits
        dest!: in_set_takeD in_set_dropD)
qed

lemma rain_rows_day:
  "x \<in> set (rain_rows rs) \<Longrightarrow>
   \<exists>r' \<in> set rs. row_rain_in r' \<noteq> None \<and> jlookup x ''day'' = Some (JInt (day_ts r'))"
  by (induction rs) (auto simp add: jlookup_def split: option.splits)

lemma temperature_row_null:
  "row_temp_high_c r = None \<or> row_temp_low_c r = None \<Longrightarrow>
   temperature_row r = JObj [ (''day'', JInt (day_ts r)), (''temp_high_F'', JNull), (''temp_low_F'', JNull) ]"
  by (auto simp add: temperature_row_def split: option.splits)

lemma humidity_row_null:
  "row_humidity_high r = None \<or> row_humidity_low r = None \<Longrightarrow>
   humidity_row r = JObj [ (''day'', JInt (day_ts r)), (''humidity_high'', JNull), (''humidity_low'', JNull) ]"
  by (auto simp add: humidity_row_def split: option.splits)

text \<open>
  Claim C5. The key \<^verbatim>\<open>day_ts\<close> being the primary key of the table, a stored day whose
  rain value is NULL appears in no row of a rain history, whatever the parameters. A
  day that a temperature (humidity) query selects and whose temperature (humidity)
  high or low is NULL is answered by a row for that day in which both fields are
  \<^verbatim>\<open>null\<close>; the temperature and humidity histories have one row for every row selected.
\<close>

theorem history_null_days:
  assumes "distinct (map day_ts tbl)"
  shows
   "(r \<in> set tbl \<and> row_rain_in r = None \<longrightarrow>
       (\<forall>x \<in> set (history_rain_json (Some tbl) now days limit offset).
          jlookup x ''day'' \<noteq> Some (JInt (day_ts r)))) \<and>
    (r \<in> set (history_rows now days limit offset tbl) \<and>
     (row_temp_high_c r = None \<or> row_temp_low_c r = None) \<longrightarrow>
       JObj [ (''day'', JInt (day_ts r)), (''temp_high_F'', JNull), (''temp_low_F'', JNull) ]
         \<in> set (history_temperature_json (Some tbl) now days limit offset)) \<and>
    (r \<in> set (history_rows now days limit offset tbl) \<and>
     (row_humidity_high r = None \<or> row_humidity_low r = None) \<longrightarrow>
       JObj [ (''day'', JInt (day_ts r)), (''humidity_high'', JNull), (''humidity_low'', JNull) ]
         \<in> set (history_humidity_json (Some tbl) now days limit offset)) \<and>
    length (history_temperature_json (Some tbl) now days limit offset)
      = length (history_rows now days limit offset tbl) \<and>
    length (history_humidity_json (Some tbl) now days limit offset)
      = length (history_rows now days limit offset tbl)"
proof (intro conjI impI ballI)
  fix x
  assume a: "r \<in> set tbl \<and> row_rain_in r = None"
    and x: "x \<in> set (history_rain_json (Some tbl) now days limit offset)"
  from x have "x \<in> set (rain_rows (history_rows now days limit offset tbl))"
    by (simp add: history_rain_json_def)
  from rain_rows_day [OF this]
  obtain r' where r': "r' \<in> set (history_rows now days limit offset tbl)"
      "row_rain_in r' \<noteq> None" "jlookup x ''day'' = Some (JInt (day_ts r'))"
    by blast
  from r'(1) have "r' \<in> set tbl"
    using run_select_subset by (auto simp add: history_rows_def)
  show "jlookup x ''day'' \<noteq> Some (JInt (day_ts r))"
  proof
    assume "jlookup x ''day'' = Some (JInt (day_ts r))"
    with r'(3) have "day_ts r' = day_ts r" by simp
    with assms a \<open>r' \<in> set tbl\<close> have "r' = r"
      by (auto simp add: distinct_map dest: inj_onD)
    with a r'(2) show False by simp
  qed
next
  assume "r \<in> set (history_rows now days limit offset tbl) \<and>
     (row_temp_high_c r = None \<or> row_temp_low_c r = None)"
  then have "temperature_row r \<in> temperature_row ` set (history_rows now days limit offset tbl)"
    and "temperature_row r = JObj [ (''day'', JInt (day_ts r)), (''temp_high_F'', JNull), (''temp_low_F'', JNull) ]"
    using temperature_row_null [of r] by blast+
  then show "JObj [ (''day'', JInt (day_ts r)), (''temp_high_F'', JNull), (''temp_low_F'', JNull) ]
         \<in> set (history_temperature_json (Some tbl) now days limit offset)"
    by (simp add: history_temperature_json_def)
next
  assume "r \<in> set (history_rows now days limit offset tbl) \<and>
     (row_humidity_high r = None \<or> row_humidity_low r = None)"
  then have "humidity_row r \<in> humidity_row ` set (history_rows now days limit offset tbl)"
    and "humidity_row r = JObj [ (''day'', JInt (day_ts r)), (''humidity_high'', JNull), (''humidity_low'', JNull) ]"
    using humidity_row_null [of r] by blast+
  then show "JObj [ (''day'', JInt (day_ts r)), (''humidity_high'', JNull), (''humidity_low'', JNull) ]
         \<in> set (history_humidity_json (Some tbl) now days limit offset)"
    by (simp add: history_humidity_json_def)
qed (simp_all add: history_temperature_json_def history_humidity_json_def)

lemma two_days_facts:
  "distinct (map day_ts two_days)"
  "warm_day \<in> set two_days"
  "row_rain_in warm_day = None"
  "history_rain_json (Some two_days) new_year_2027 (- 1) (- 1) (- 1)
     = [ JObj [ (''day'', JInt 1798675200), (''rain_in'', JFloat (1 / 4)) ] ]"
  "wet_day \<in> set (history_rows new_year_2027 (- 1) (- 1) (- 1) two_days)"
  "row_temp_high_c wet_day = None"
  "day_ts wet_day = 1798675200"
  "day_ts warm_day = 1797897600"
  "warm_day \<in> set (history_rows new_year_2027 (- 1) (- 1) (- 1) two_days)"
  "row_humidity_high warm_day = None"
  by code_simp+

theorem history_null_days_witness:
  "distinct (map day_ts two_days) \<and>
   warm_day \<in> set two_days \<and> row_rain_in warm_day = None \<and> day_ts warm_day = 1797897600 \<and>
   history_rain_json (Some two_days) new_year_2027 (- 1) (- 1) (- 1)
     = [ JObj [ (''day'', JInt 1798675200), (''rain_in'', JFloat (1 / 4)) ] ] \<and>
   wet_day \<in> set (history_rows new_year_2027 (- 1) (- 1) (- 1) two_days) \<and>
   row_temp_high_c wet_day = None \<and>
   JObj [ (''day'', JInt 1798675200), (''temp_high_F'', JNull), (''temp_low_F'', JNull) ]
     \<in> set (history_temperature_json (Some two_days) new_year_2027 (- 1) (- 1) (- 1)) \<and>
   warm_day \<in> set (history_rows new_year_2027 (- 1) (- 1) (- 1) two_days) \<and>
   row_humidity_high warm_day = None \<and>
   JObj [ (''day'', JInt 1797897600), (''humidity_high'', JNull), (''humidity_low'', JNull) ]
     \<in> set (history_humidity_json (Some two_days) new_year_2027 (- 1) (- 1) (- 1))"
  using history_null_days [OF two_days_facts(1), where r = wet_day and now = new_year_2027
          and days = "- 1" and limit = "- 1" and offset = "- 1"]
        history_null_days [OF two_days_facts(1), where r = warm_day and now = new_year_2027
          and days = "- 1" and limit = "- 1" and offset = "- 1"]
  by (simp add: two_days_facts)

section \<open>The snapshot file\<close>

lemma load_field_present:
  "jlookup j k = Some v \<Longrightarrow> rd v = Some x \<Longrightarrow>
   load_field j k rd store (Some st) = Some (store x st)"
  by (simp add: load_field_def)

lemma load_fields_save_state_json:
  "load_fields (save_state_json st) st0 =
     Some (st0\<lparr> last_rain_mm := last_rain_mm st, last_update := last_update st,
                rain_daily_in := rain_daily_in st, rain_monthly_in := rain_monthly_in st,
                rain_yearly_in := rain_yearly_in st, rain_weekly_in := rain_weekly_in st,
                rain_hourly_in := rain_hourly_in st, rain_event_in := rain_event_in st,
                daily_ymd := daily_ymd st, month_ym := month_ym st, year_y := year_y st,
                week_start_ymd := week_start_ymd st,
                historical_total_in := historical_total_in st,
                historical_yearly_in := historical_yearly_in st,
                historical_monthly_in := historical_monthly_in st,
                historical_weekly_in := historical_weekly_in st,
                historical_seeded := historical_seeded st,
                temp_high_c := temp_high_c st, temp_low_c := temp_low_c st, have_temp := have_temp st,
                hum_high := hum_high st, hum_low := hum_low st, have_hum := have_hum st,
                have_wind := have_wind st, wind_mean_m_s := wind_mean_m_s st,
                wind_max_gust_m_s := wind_max_gust_m_s st,
                wind_sample_count := wind_sample_count st,
                day_first_ts := day_first_ts st, day_last_ts := day_last_ts st \<rparr>)"
  by (simp add: load_fields_def save_state_json_def load_field_def jlookup_def
      get_as_double_def get_as_long_long_def get_as_int_def get_as_uint64_def get_as_bool_def)


text \<open>
  Claim C6, as the code has it. Every accepted sample (a rain reading in range) ends
  with the snapshot file holding the object that \<^verbatim>\<open>save_state\<close> builds from the new
  state. That object holds the rain accounting (last reading, last update, the six
  accumulators), the four calendar keys, the historical offsets and their flag, the
  temperature, humidity and wind tracking and the two coverage timestamps; it does
  not hold the telemetry, the hourly delta sequence or the time of the last rain
  event. Reading it back at startup gives the defaults with exactly the saved fields
  restored. When the file is missing or does not parse, or a saved field has the
  wrong type, the state is the defaults: the calendar keys of the current time, all
  accumulators 0, no last reading, \<^verbatim>\<open>historical_seeded\<close> true.
\<close>

theorem snapshot_round_trip:
  "(jlookup j ''rain_mm'' = Some v \<and> get_as_double v = Some reading \<and> 0 \<le> reading \<and> reading \<le> 20000 \<longrightarrow>
      fst (process_ws90_json_locked L now j g) = Returned \<and>
      state_file (snd (process_ws90_json_locked L now j g))
        = JsonDoc (save_state_json (g_state (snd (process_ws90_json_locked L now j g)))))
   \<and>
   load_state L t t' (JsonDoc (save_state_json st)) =
     (init_state_defaults L t)
       \<lparr> last_rain_mm := last_rain_mm st, last_update := last_update st,
         rain_daily_in := rain_daily_in st, rain_monthly_in := rain_monthly_in st,
         rain_yearly_in := rain_yearly_in st, rain_weekly_in := rain_weekly_in st,
         rain_hourly_in := rain_hourly_in st, rain_event_in := rain_event_in st,
         daily_ymd := daily_ymd st, month_ym := month_ym st, year_y := year_y st,
         week_start_ymd := week_start_ymd st,
         historical_total_in := historical_total_in st,
         historical_yearly_in := historical_yearly_in st,
         historical_monthly_in := historical_monthly_in st,
         historical_weekly_in := historical_weekly_in st,
         historical_seeded := historical_seeded st,
         temp_high_c := temp_high_c st, temp_low_c := temp_low_c st, have_temp := have_temp st,
         hum_high := hum_high st, hum_low := hum_low st, have_hum := have_hum st,
         have_wind := have_wind st, wind_mean_m_s := wind_mean_m_s st,
         wind_max_gust_m_s := wind_max_gust_m_s st,
         wind_sample_count := wind_sample_count st,
         day_first_ts := day_first_ts st, day_last_ts := day_last_ts st \<rparr>
   \<and> deltas (load_state L t t' (JsonDoc (save_state_json st))) = []
   \<and> last_rain_ts (load_state L t t' (JsonDoc (save_state_json st))) = 0
   \<and> load_state L t t' NoFile = init_state_defaults L t
   \<and> load_state L t t' Unparseable = init_state_defaults L t'
   \<and> (load_fields doc (init_state_defaults L t) = None \<longrightarrow>
        load_state L t t' (JsonDoc doc) = init_state_defaults L t')
   \<and> daily_ymd (init_state_defaults L t) = ymd_from_time L t
   \<and> month_ym (init_state_defaults L t) = ym_from_time L t
   \<and> year_y (init_state_defaults L t) = y_from_time L t
   \<and> week_start_ymd (init_state_defaults L t) = ymd_from_time L t
   \<and> rain_daily_in (init_state_defaults L t) = 0
   \<and> rain_monthly_in (init_state_defaults L t) = 0
   \<and> rain_yearly_in (init_state_defaults L t) = 0
   \<and> rain_weekly_in (init_state_defaults L t) = 0
   \<and> rain_hourly_in (init_state_defaults L t) = 0
   \<and> rain_event_in (init_state_defaults L t) = 0
   \<and> last_rain_mm (init_state_defaults L t) = 0
   \<and> deltas (init_state_defaults L t) = []
   \<and> historical_seeded (init_state_defaults L t)"
proof (intro conjI impI)
  assume a: "jlookup j ''rain_mm'' = Some v \<and> get_as_double v = Some reading \<and> 0 \<le> reading \<and> reading \<le> 20000"
  then have p: "jlookup j ''rain_mm'' = Some v" "get_as_double v = Some reading" "0 \<le> reading"
    "reading \<le> 20000"
    by simp_all
  show "fst (process_ws90_json_locked L now j g) = Returned"
    by (simp add: process_in_range [OF p] Let_def)
  show "state_file (snd (process_ws90_json_locked L now j g))
        = JsonDoc (save_state_json (g_state (snd (process_ws90_json_locked L now j g))))"
    by (simp add: process_in_range [OF p] Let_def save_state_def)
next
  show "load_state L t t' (JsonDoc (save_state_json st)) =
     (init_state_defaults L t)
       \<lparr> last_rain_mm := last_rain_mm st, last_update := last_update st,
         rain_daily_in := rain_daily_in st, rain_monthly_in := rain_monthly_in st,
         rain_yearly_in := rain_yearly_in st, rain_weekly_in := rain_weekly_in st,
         rain_hourly_in := rain_hourly_in st, rain_event_in := rain_event_in st,
         daily_ymd := daily_ymd st, month_ym := month_ym st, year_y := year_y st,
         week_start_ymd := week_start_ymd st,
         historical_total_in := historical_total_in st,
         historical_yearly_in := historical_yearly_in st,
         historical_monthly_in := historical_monthly_in st,
         historical_weekly_in := historical_weekly_in st,
         historical_seeded := historical_seeded st,
         temp_high_c := temp_high_c st, temp_low_c := temp_low_c st, have_temp := have_temp st,
         hum_high := hum_high st, hum_low := hum_low st, have_hum := have_hum st,
         have_wind := have_wind st, wind_mean_m_s := wind_mean_m_s st,
         wind_max_gust_m_s := wind_max_gust_m_s st,
         wind_sample_count := wind_sample_count st,
         day_first_ts := day_first_ts st, day_last_ts := day_last_ts st \<rparr>"
    by (simp only: load_state_def snapshot_file.case load_fields_save_state_json option.case)
  show "deltas (load_state L t t' (JsonDoc (save_state_json st))) = []"
    by (simp add: load_state_def load_fields_save_state_json init_state_defaults_def
        WeatherStateV2_init_def)
  show "last_rain_ts (load_state L t t' (JsonDoc (save_state_json st))) = 0"
    by (simp add: load_state_def load_fields_save_state_json init_state_defaults_def
        WeatherStateV2_init_def)
next
  assume "load_fields doc (init_state_defaults L t) = None"
  then show "load_state L t t' (JsonDoc doc) = init_state_defaults L t'"
    by (simp add: load_state_def)
qed (simp_all add: load_state_def init_state_defaults_def WeatherStateV2_init_def)

lemma snapshot_facts:
  "jlookup (ws90_sample (10127 / 100) 21) ''rain_mm'' = Some (JFloat (10127 / 100))"
  "load_fields snapshot_with_text (init_state_defaults utc new_year_2027) = None"
  "rain_daily_in (g_state rainy_minute) = 5 / 100"
  "last_rain_mm (g_state rainy_minute) = 10127 / 100"
  by code_simp+

theorem snapshot_round_trip_witness:
  "jlookup (ws90_sample (10127 / 100) 21) ''rain_mm'' = Some (JFloat (10127 / 100)) \<and>
   get_as_double (JFloat (10127 / 100)) = Some (10127 / 100) \<and>
   (0 :: real) \<le> 10127 / 100 \<and> (10127 / 100 :: real) \<le> 20000 \<and>
   state_file (snd (process_ws90_json_locked utc (new_year_2027 + 60) (ws90_sample (10127 / 100) 21)
       (poll utc (new_year_2027, ws90_sample 100 20) (init utc new_year_2027 new_year_2027 NoFile (Some [])))))
     = JsonDoc (save_state_json (g_state (snd (process_ws90_json_locked utc (new_year_2027 + 60)
         (ws90_sample (10127 / 100) 21)
         (poll utc (new_year_2027, ws90_sample 100 20)
            (init utc new_year_2027 new_year_2027 NoFile (Some []))))))) \<and>
   rain_daily_in (load_state utc (new_year_2027 + 120) (new_year_2027 + 120)
                    (JsonDoc (save_state_json (g_state rainy_minute)))) = 5 / 100 \<and>
   last_rain_mm (load_state utc (new_year_2027 + 120) (new_year_2027 + 120)
                    (JsonDoc (save_state_json (g_state rainy_minute)))) = 10127 / 100 \<and>
   load_fields snapshot_with_text (init_state_defaults utc new_year_2027) = None \<and>
   load_state utc new_year_2027 (new_year_2027 + 1) (JsonDoc snapshot_with_text)
     = init_state_defaults utc (new_year_2027 + 1)"
  using snapshot_round_trip [where j = "ws90_sample (10127 / 100) 21" and v = "JFloat (10127 / 100)"
          and reading = "10127 / 100" and L = utc and now = "new_year_2027 + 60"
          and g = "poll utc (new_year_2027, ws90_sample 100 20)
                     (init utc new_year_2027 new_year_2027 NoFile (Some []))"
          and t = "new_year_2027 + 120" and t' = "new_year_2027 + 120" and st = "g_state rainy_minute"
          and doc = snapshot_with_text]
        snapshot_round_trip [where j = "ws90_sample (10127 / 100) 21" and v = "JFloat (10127 / 100)"
          and reading = "10127 / 100" and L = utc and now = "new_year_2027 + 60"
          and g = "poll utc (new_year_2027, ws90_sample 100 20)
                     (init utc new_year_2027 new_year_2027 NoFile (Some []))"
          and t = new_year_2027 and t' = "new_year_2027 + 1" and st = "g_state rainy_minute"
          and doc = snapshot_with_text]
  by (simp add: snapshot_facts get_as_double_def)

text \<open>
  The state is not saved in full. After the run \<open>rainy_minute\<close> the state holds one
  hourly delta and the time of the rain event; the state read back from the snapshot
  file written by that very call holds neither, while the hourly total is restored.
\<close>

theorem snapshot_drops_deltas_counterexample:
  "state_file rainy_minute = JsonDoc (save_state_json (g_state rainy_minute)) \<and>
   deltas (g_state rainy_minute) = [\<lparr> ts = new_year_2027 + 60, inches = 5 / 100 \<rparr>] \<and>
   last_rain_ts (g_state rainy_minute) = new_year_2027 + 60 \<and>
   temperature_C (g_state rainy_minute) = 21 \<and>
   deltas (load_state utc (new_year_2027 + 120) (new_year_2027 + 120) (state_file rainy_minute)) = [] \<and>
   last_rain_ts (load_state utc (new_year_2027 + 120) (new_year_2027 + 120) (state_file rainy_minute)) = 0 \<and>
   temperature_C (load_state utc (new_year_2027 + 120) (new_year_2027 + 120) (state_file rainy_minute)) = 0 \<and>
   rain_hourly_in (load_state utc (new_year_2027 + 120) (new_year_2027 + 120) (state_file rainy_minute)) = 5 / 100"
  by code_simp

end
